theory Spec2Isabelle
  imports Main
begin

section \<open>Go library functions used by the room manager\<close>

text \<open>
  \<^verbatim>\<open>fmt.Sprintf("%d", x)\<close>: the decimal rendering of an integer, a minus sign first for a
  negative one. Go strings are byte strings, so \<open>string\<close> (a list of characters) is the
  model.
\<close>

definition digitChar :: "nat \<Rightarrow> char" where
  "digitChar d = ''0123456789'' ! d"

function fmt_nat :: "nat \<Rightarrow> string" where
  "fmt_nat n = (if n < 10 then [digitChar n] else fmt_nat (n div 10) @ [digitChar (n mod 10)])"
  by pat_completeness auto
termination
  by (relation "measure id") auto

declare fmt_nat.simps [simp del]

definition fmt_d :: "int \<Rightarrow> string" where
  "fmt_d i = (if i < 0 then CHR ''-'' # fmt_nat (nat (- i)) else fmt_nat (nat i))"

text \<open>\<^verbatim>\<open>strings.Join(elems, sep)\<close>.\<close>

fun Join :: "string list \<Rightarrow> string \<Rightarrow> string" where
  "Join [] sep = []"
| "Join [x] sep = x"
| "Join (x # y # ys) sep = x @ sep @ Join (y # ys) sep"

text \<open>
  Go's integer types. The fields of \<^verbatim>\<open>EprPorts\<close> and the two \<^verbatim>\<open>MaxConnections\<close>
  fields have one integer type (Go converts nothing implicitly between them); it is
  declared outside manager.go, so it is a parameter, one of these. A value is the
  integer it stands for, between \<open>minInt\<close> and \<open>maxInt\<close> of its type; the result of an
  addition or subtraction is brought back into that interval by \<open>wrapInt\<close>, as Go's
  arithmetic wraps around.
\<close>

datatype intType = Int8 | Int16 | Int32 | Int64 | Uint8 | Uint16 | Uint32 | Uint64

fun intBits :: "intType \<Rightarrow> nat" where
  "intBits Int8 = 8"
| "intBits Int16 = 16"
| "intBits Int32 = 32"
| "intBits Int64 = 64"
| "intBits Uint8 = 8"
| "intBits Uint16 = 16"
| "intBits Uint32 = 32"
| "intBits Uint64 = 64"

fun isSigned :: "intType \<Rightarrow> bool" where
  "isSigned Int8 = True"
| "isSigned Int16 = True"
| "isSigned Int32 = True"
| "isSigned Int64 = True"
| "isSigned Uint8 = False"
| "isSigned Uint16 = False"
| "isSigned Uint32 = False"
| "isSigned Uint64 = False"

definition minInt :: "intType \<Rightarrow> int" where
  "minInt ty = (if isSigned ty then - (2 ^ (intBits ty - 1)) else 0)"

definition maxInt :: "intType \<Rightarrow> int" where
  "maxInt ty = (if isSigned ty then 2 ^ (intBits ty - 1) - 1 else 2 ^ intBits ty - 1)"

definition wrapInt :: "intType \<Rightarrow> int \<Rightarrow> int" where
  "wrapInt ty x =
     (if isSigned ty
      then (x + 2 ^ (intBits ty - 1)) mod 2 ^ intBits ty - 2 ^ (intBits ty - 1)
      else x mod 2 ^ intBits ty)"

section \<open>Constants of the package\<close>

definition nekoImage :: string where
  "nekoImage = ''m1k1o/neko:latest''"

definition containerPrefix :: string where
  "containerPrefix = ''neko-room-''"

definition frontendPort :: int where
  "frontendPort = 8080"

definition labelCanary :: string where
  "labelCanary = ''m1k1o-neko-rooms''"

section \<open>Data\<close>

text \<open>
  Errors as values. \<open>Errorf\<close> is an error made by \<^verbatim>\<open>fmt.Errorf\<close> in manager.go;
  \<open>External\<close> is an error handed back by a collaborator (the container engine, the
  identifier generator, the settings schema). The remaining constructors are the
  specification's taxonomy, used by the functions of the package that manager.go calls
  but does not define.
\<close>

datatype error =
    Errorf string
  | External string
  | InvalidRequestError
  | PortExhaustionError
  | CorruptMetadataError
  | NotFoundError

text \<open>
  The port range of a room (\<open>epr\<close> in manager.go, PortRange in the specification):
  inclusive bounds. The fields hold values of a Go integer type, the \<open>portType\<close> of the
  manager below.
\<close>

record EprPorts =
  Min_epr :: int
  Max_epr :: int

text \<open>
  \<^verbatim>\<open>config.Room\<close>: the fields manager.go reads, and the global port window, which
  the specification names as a configuration input of the allocator.
\<close>

record Room =
  TraefikDomain :: string
  TraefikEntrypoint :: string
  TraefikCertresolver :: string
  TraefikNetwork :: string
  NAT1To1IPs :: "string list"
  PortWindow :: EprPorts

text \<open>
  \<^verbatim>\<open>types.RoomSettings\<close>: manager.go reads and writes \<open>Name\<close> and
  \<open>MaxConnections\<close>; the workload-specific options, which travel through the
  environment, stay abstract in \<open>Options\<close>.
\<close>

record 'o RoomSettings =
  Name :: string
  MaxConnections :: int
  Options :: 'o

text \<open>\<^verbatim>\<open>types.RoomEntry\<close>; \<open>Created\<close> in seconds since the epoch.\<close>

record RoomEntry =
  ID :: string
  URL :: string
  Name :: string
  MaxConnections :: int
  Image :: string
  Running :: bool
  Status :: string
  Created :: int

type_synonym labelmap = "string \<rightharpoonup> string"

text \<open>\<^verbatim>\<open>nat.PortBinding\<close>, \<^verbatim>\<open>nat.PortMap\<close> and \<^verbatim>\<open>nat.PortSet\<close>.\<close>

record PortBinding =
  HostIP :: string
  HostPort :: string

type_synonym PortMap = "string \<rightharpoonup> PortBinding list"
type_synonym PortSet = "string set"

text \<open>\<^verbatim>\<open>container.Config\<close>, \<^verbatim>\<open>container.HostConfig\<close> and \<^verbatim>\<open>network.NetworkingConfig\<close>, with the fields Create sets.\<close>

record ContainerConfig =
  Hostname :: string
  Domainname :: string
  ExposedPorts :: PortSet
  Env :: "string list"
  Image :: string
  Labels :: labelmap

record LogConfig =
  Type :: string
  Config :: labelmap

record RestartPolicy =
  Name :: string

record HostConfig =
  PortBindings :: PortMap
  LogConfig :: LogConfig
  RestartPolicy :: RestartPolicy
  CapAdd :: "string list"
  ShmSize :: int

record NetworkingConfig =
  EndpointsConfig :: "string \<rightharpoonup> unit"

record ContainerRemoveOptions =
  RemoveVolumes :: bool
  Force :: bool

text \<open>\<^verbatim>\<open>dockerTypes.Container\<close>, an entry of the engine's listing.\<close>

record Container =
  ID :: string
  Image :: string
  State :: string
  Status :: string
  Created :: int
  Labels :: labelmap

text \<open>\<^verbatim>\<open>dockerTypes.ContainerJSON\<close>, the engine's answer to an inspection.\<close>

record ContainerJSON =
  ID :: string
  Config :: ContainerConfig

text \<open>
  The container engine (\<^verbatim>\<open>dockerClient.Client\<close>) is an external collaborator: its
  primitives are parameters, over an engine state \<open>'s\<close> of any type. Listing and
  inspection read the state; create, start, stop, restart and remove return a new one.
  \<open>ContainerList\<close> is the listing of every workload of the engine, running or not.
\<close>

record 's Client =
  ContainerList :: "'s \<Rightarrow> error + Container list"
  ContainerInspect :: "string \<Rightarrow> 's \<Rightarrow> error + ContainerJSON"
  ContainerCreate :: "ContainerConfig \<Rightarrow> HostConfig \<Rightarrow> NetworkingConfig \<Rightarrow> string \<Rightarrow> 's
     \<Rightarrow> (error + string) \<times> 's"
  ContainerStart :: "string \<Rightarrow> 's \<Rightarrow> error option \<times> 's"
  ContainerStop :: "string \<Rightarrow> 's \<Rightarrow> error option \<times> 's"
  ContainerRestart :: "string \<Rightarrow> 's \<Rightarrow> error option \<times> 's"
  ContainerRemove :: "string \<Rightarrow> ContainerRemoveOptions \<Rightarrow> 's \<Rightarrow> error option \<times> 's"

text \<open>
  \<^verbatim>\<open>RoomManagerCtx\<close>: the configuration and the engine client. The functions of the
  packages \<^verbatim>\<open>utils\<close> and \<^verbatim>\<open>types\<close> that manager.go calls (\<^verbatim>\<open>utils.NewUID\<close>,
  \<^verbatim>\<open>settings.ToEnv\<close>, \<^verbatim>\<open>settings.FromEnv\<close>, and the zero value of the options) are
  defined outside manager.go and are parameters too, and so is \<open>portType\<close>, the
  integer type of the port bounds and of \<^verbatim>\<open>MaxConnections\<close>.
\<close>

record ('s, 'o) RoomManagerCtx =
  config :: Room
  client :: "'s Client"
  NewUID :: "nat \<Rightarrow> 's \<Rightarrow> (error + string) \<times> 's"
  ToEnv :: "'o RoomSettings \<Rightarrow> string list"
  FromEnv :: "'o RoomSettings \<Rightarrow> string list \<Rightarrow> 'o RoomSettings \<times> error option"
  zeroOptions :: 'o
  portType :: intType

section \<open>Functions of the package that manager.go calls but does not define\<close>

text \<open>
  Modelled from the spec: a decimal field of the metadata. The parser is not in
  manager.go; the specification says the port-range bounds are stored as decimal
  integers and that a field that fails to parse is corrupt metadata. A non-empty string
  of decimal digits is read as the number it writes; any other string fails. First, the
  value of a digit.
\<close>

definition digitVal :: "char \<Rightarrow> nat option" where
  "digitVal = map_of
     [(CHR ''0'', 0), (CHR ''1'', 1), (CHR ''2'', 2), (CHR ''3'', 3), (CHR ''4'', 4),
      (CHR ''5'', 5), (CHR ''6'', 6), (CHR ''7'', 7), (CHR ''8'', 8), (CHR ''9'', 9)]"

text \<open>
  Modelled from the spec: reading the digits of a decimal field from the left, the value
  read so far in the accumulator; a character that is not a digit fails.
\<close>

fun parseDigits :: "nat \<Rightarrow> string \<Rightarrow> nat option" where
  "parseDigits acc [] = Some acc"
| "parseDigits acc (c # cs) =
     (case digitVal c of None \<Rightarrow> None | Some d \<Rightarrow> parseDigits (acc * 10 + d) cs)"

text \<open>
  Modelled from the spec: the parser of a decimal field into a value of the integer type
  \<open>ty\<close>; the empty string fails, and so does a number beyond the type's maximum, which
  the field cannot hold.
\<close>

definition parseDecimal :: "intType \<Rightarrow> string \<Rightarrow> int option" where
  "parseDecimal ty s =
     (if s = [] then None
      else case parseDigits 0 s of
             None \<Rightarrow> None
           | Some n \<Rightarrow> if int n \<le> maxInt ty then Some (int n) else None)"

text \<open>
  Modelled from the spec: \<^verbatim>\<open>getEprFromLabels\<close>, called by List and Get and defined
  outside manager.go. Section 4.1: decoding fails with CorruptMetadataError if a
  required key is absent or a numeric field fails to parse; section 6: the keys are
  \<^verbatim>\<open>epr.min\<close> and \<^verbatim>\<open>epr.max\<close> in the namespace of the other keys.
\<close>

definition getEprFromLabels :: "intType \<Rightarrow> labelmap \<Rightarrow> error + EprPorts" where
  "getEprFromLabels ty labels =
     (case labels ''m1k1o.neko_rooms.epr.min'' of
        None \<Rightarrow> Inl CorruptMetadataError
      | Some sMin \<Rightarrow>
         (case labels ''m1k1o.neko_rooms.epr.max'' of
            None \<Rightarrow> Inl CorruptMetadataError
          | Some sMax \<Rightarrow>
             (case parseDecimal ty sMin of
                None \<Rightarrow> Inl CorruptMetadataError
              | Some mn \<Rightarrow>
                 (case parseDecimal ty sMax of
                    None \<Rightarrow> Inl CorruptMetadataError
                  | Some mx \<Rightarrow> Inr \<lparr>Min_epr = mn, Max_epr = mx\<rparr>))))"

text \<open>
  Modelled from the spec: the canary test. A workload belongs to this system when its
  metadata holds the canary key with the constant marker value.
\<close>

definition hasCanary :: "labelmap \<Rightarrow> bool" where
  "hasCanary labels = (labels ''m1k1o.neko_rooms.canary'' = Some labelCanary)"

text \<open>
  Modelled from the spec: \<^verbatim>\<open>listContainers\<close>, called by List and defined outside
  manager.go. Section 4.4: enumerate all canary-marked workloads; section 4.2: every
  workload known to the engine bearing the canary marker, regardless of running state.
\<close>

definition listContainers :: "('s, 'o) RoomManagerCtx \<Rightarrow> 's \<Rightarrow> error + Container list" where
  "listContainers manager s =
     (case ContainerList (client manager) s of
        Inl err \<Rightarrow> Inl err
      | Inr containers \<Rightarrow> Inr (filter (\<lambda>c. hasCanary (Container.Labels c)) containers))"

text \<open>
  Modelled from the spec: \<^verbatim>\<open>inspectContainer\<close>, called by Get, Remove, Start, Stop
  and Restart and defined outside manager.go. Section 4.4: verify the target is a
  canary-marked room belonging to this system, reject otherwise; section 7: errors of
  the engine are handed on as they are, and a workload that is not canary-marked is
  NotFoundError.
\<close>

definition inspectContainer :: "('s, 'o) RoomManagerCtx \<Rightarrow> string \<Rightarrow> 's \<Rightarrow> error + ContainerJSON" where
  "inspectContainer manager ident s =
     (case ContainerInspect (client manager) ident s of
        Inl err \<Rightarrow> Inl err
      | Inr container \<Rightarrow>
          if hasCanary (ContainerConfig.Labels (ContainerJSON.Config container))
          then Inr container else Inl NotFoundError)"

text \<open>
  Modelled from the spec: the port allocator of section 4.2, which Create calls as
  \<^verbatim>\<open>allocatePorts\<close> and which is defined outside manager.go. The existing ranges are
  sorted by start; the scan starts at the window's lower bound and skips over every
  leased interval the candidate block touches, until the block ends before the next
  leased interval (or no interval is left); the block must end inside the window. A size
  of zero or less is an invalid request. First, the block at the current start of the
  scan: the range of the requested size, or PortExhaustionError when it ends beyond the
  window.
\<close>

definition takeGap :: "int \<Rightarrow> int \<Rightarrow> int \<Rightarrow> error + EprPorts" where
  "takeGap requestedSize hi gapStart =
     (if gapStart + requestedSize - 1 \<le> hi
      then Inr \<lparr>Min_epr = gapStart, Max_epr = gapStart + requestedSize - 1\<rparr>
      else Inl PortExhaustionError)"

text \<open>
  Modelled from the spec: the scan over the leased intervals, sorted by start. The block
  at \<open>gapStart\<close> is taken when it ends before the next interval starts; otherwise the
  scan moves past that interval.
\<close>

fun scanGaps :: "int \<Rightarrow> int \<Rightarrow> int \<Rightarrow> EprPorts list \<Rightarrow> error + EprPorts" where
  "scanGaps requestedSize hi gapStart [] = takeGap requestedSize hi gapStart"
| "scanGaps requestedSize hi gapStart (r # rs) =
     (if gapStart + requestedSize - 1 < Min_epr r
      then takeGap requestedSize hi gapStart
      else scanGaps requestedSize hi (max gapStart (Max_epr r + 1)) rs)"

text \<open>
  Modelled from the spec: \<open>allocate(requestedSize, globalWindow, existingRanges)\<close> of
  section 4.2.
\<close>

definition allocate :: "int \<Rightarrow> EprPorts \<Rightarrow> EprPorts list \<Rightarrow> error + EprPorts" where
  "allocate requestedSize globalWindow existingRanges =
     (if requestedSize \<le> 0 then Inl InvalidRequestError
      else scanGaps requestedSize (Max_epr globalWindow) (Min_epr globalWindow)
             (sort_key Min_epr existingRanges))"

text \<open>
  Modelled from the spec: the existing ranges are those of every canary-marked workload;
  a decode failure while collecting them is fatal to the allocation.
\<close>

fun getUsedPorts :: "intType \<Rightarrow> Container list \<Rightarrow> error + EprPorts list" where
  "getUsedPorts ty [] = Inr []"
| "getUsedPorts ty (container # rest) =
     (case getEprFromLabels ty (Container.Labels container) of
        Inl err \<Rightarrow> Inl err
      | Inr epr \<Rightarrow>
         (case getUsedPorts ty rest of Inl err \<Rightarrow> Inl err | Inr result \<Rightarrow> Inr (epr # result)))"

text \<open>
  Modelled from the spec: \<^verbatim>\<open>allocatePorts\<close> as Create calls it, defined outside
  manager.go: the allocator of section 4.2 on the configured window and the ranges of
  the current inventory.
\<close>

definition allocatePorts :: "('s, 'o) RoomManagerCtx \<Rightarrow> int \<Rightarrow> 's \<Rightarrow> error + EprPorts" where
  "allocatePorts manager requestedSize s =
     (case listContainers manager s of
        Inl err \<Rightarrow> Inl err
      | Inr containers \<Rightarrow>
         (case getUsedPorts (portType manager) containers of
            Inl err \<Rightarrow> Inl err
          | Inr ports \<Rightarrow> allocate requestedSize (PortWindow (config manager)) ports))"

text \<open>
  The words of the allocator's contract. Two ranges overlap when neither ends before the
  other starts; for ranges with min \<open>\<le>\<close> max that is sharing a port. A start is a free
  block for a request when the block of the requested size that begins there lies inside
  the window and overlaps no existing range.
\<close>

definition overlaps :: "EprPorts \<Rightarrow> EprPorts \<Rightarrow> bool" where
  "overlaps a b = (Min_epr a \<le> Max_epr b \<and> Min_epr b \<le> Max_epr a)"

definition freeBlock :: "int \<Rightarrow> EprPorts \<Rightarrow> EprPorts list \<Rightarrow> int \<Rightarrow> bool" where
  "freeBlock requestedSize globalWindow existingRanges start =
     (Min_epr globalWindow \<le> start
      \<and> start + requestedSize - 1 \<le> Max_epr globalWindow
      \<and> list_all (\<lambda>r. \<not> overlaps \<lparr>Min_epr = start, Max_epr = start + requestedSize - 1\<rparr> r)
            existingRanges)"

section \<open>manager.go\<close>

subsection \<open>List\<close>

text \<open>
  The body of the loop of List is one step of \<open>List_loop\<close>: the first workload whose
  labels do not decode ends the call with the error and without the entries collected so
  far (\<^verbatim>\<open>return nil, err\<close>). A Go result \<^verbatim>\<open>(nil, err)\<close> is \<open>Inl err\<close>, a result
  \<^verbatim>\<open>(result, nil)\<close> is \<open>Inr result\<close>. \<^verbatim>\<open>epr.Max - epr.Min + 1\<close> is computed in the
  integer type \<open>ty\<close> of the bounds and wraps around (wrapping the whole sum once is the
  same as wrapping after the subtraction and again after the addition).
\<close>

fun List_loop :: "intType \<Rightarrow> Container list \<Rightarrow> RoomEntry list \<Rightarrow> error + RoomEntry list" where
  "List_loop ty [] result = Inr result"
| "List_loop ty (container # rest) result =
     (case Container.Labels container ''m1k1o.neko_rooms.name'' of
        None \<Rightarrow> Inl (Errorf ''Damaged container labels: name not found.'')
      | Some roomName \<Rightarrow>
         (case Container.Labels container ''m1k1o.neko_rooms.url'' of
            None \<Rightarrow> Inl (Errorf ''Damaged container labels: url not found.'')
          | Some url \<Rightarrow>
             (case getEprFromLabels ty (Container.Labels container) of
                Inl err \<Rightarrow> Inl err
              | Inr epr \<Rightarrow>
                  List_loop ty rest (result @ [\<lparr>
                    RoomEntry.ID = Container.ID container,
                    RoomEntry.URL = url,
                    RoomEntry.Name = roomName,
                    RoomEntry.MaxConnections = wrapInt ty (Max_epr epr - Min_epr epr + 1),
                    RoomEntry.Image = Container.Image container,
                    RoomEntry.Running = (Container.State container = ''running''),
                    RoomEntry.Status = Container.Status container,
                    RoomEntry.Created = Container.Created container\<rparr>]))))"

definition List :: "('s, 'o) RoomManagerCtx \<Rightarrow> 's \<Rightarrow> error + RoomEntry list" where
  "List manager s =
     (case listContainers manager s of
        Inl err \<Rightarrow> Inl err
      | Inr containers \<Rightarrow> List_loop (portType manager) containers [])"

subsection \<open>Create\<close>

text \<open>
  The key of a port in the two maps, and the body of the loop
  \<^verbatim>\<open>for port := epr.Min; port <= epr.Max; port++\<close>, which writes the port into
  \<open>portBindings\<close> and \<open>exposedPorts\<close>.
\<close>

definition portKey :: "int \<Rightarrow> string" where
  "portKey port = fmt_d port @ ''/udp''"

definition Create_publish :: "PortMap \<times> PortSet \<Rightarrow> int \<Rightarrow> PortMap \<times> PortSet" where
  "Create_publish maps port =
     (case maps of (portBindings, exposedPorts) \<Rightarrow>
        (portBindings(portKey port \<mapsto> [\<lparr>HostIP = ''0.0.0.0'', HostPort = fmt_d port\<rparr>]),
         insert (portKey port) exposedPorts))"

text \<open>
  The loop itself. \<^verbatim>\<open>port++\<close> wraps around in the integer type \<open>ty\<close> of the bounds,
  so when \<^verbatim>\<open>epr.Max\<close> is the largest value of the type the condition
  \<^verbatim>\<open>port <= epr.Max\<close> never fails and the loop does not end: the result is an option,
  \<open>None\<close> when the loop never returns.
\<close>

partial_function (option) Create_ports ::
  "intType \<Rightarrow> int \<Rightarrow> int \<Rightarrow> PortMap \<times> PortSet \<Rightarrow> (PortMap \<times> PortSet) option" where
  "Create_ports ty port mx maps =
     (if port \<le> mx
      then Create_ports ty (wrapInt ty (port + 1)) mx (Create_publish maps port)
      else Some maps)"

definition Create_urlProto :: "Room \<Rightarrow> string" where
  "Create_urlProto cfg = (if TraefikCertresolver cfg \<noteq> [] then ''https'' else ''http'')"

definition Create_labels :: "Room \<Rightarrow> string \<Rightarrow> EprPorts \<Rightarrow> labelmap" where
  "Create_labels cfg roomName epr =
     (let containerName = containerPrefix @ roomName;
          labels = [
            ''m1k1o.neko_rooms.name'' \<mapsto> roomName,
            ''m1k1o.neko_rooms.url'' \<mapsto>
              Create_urlProto cfg @ ''://'' @ TraefikDomain cfg @ ''/'' @ roomName @ ''/'',
            ''m1k1o.neko_rooms.canary'' \<mapsto> labelCanary,
            ''m1k1o.neko_rooms.epr.min'' \<mapsto> fmt_d (Min_epr epr),
            ''m1k1o.neko_rooms.epr.max'' \<mapsto> fmt_d (Max_epr epr),
            ''traefik.enable'' \<mapsto> ''true'',
            ''traefik.http.services.'' @ containerName @ ''-frontend.loadbalancer.server.port'' \<mapsto>
              fmt_d frontendPort,
            ''traefik.http.routers.'' @ containerName @ ''.entrypoints'' \<mapsto> TraefikEntrypoint cfg,
            ''traefik.http.routers.'' @ containerName @ ''.rule'' \<mapsto>
              ''Host(`'' @ TraefikDomain cfg @ ''`) && PathPrefix(`/'' @ roomName @ ''`)'',
            ''traefik.http.middlewares.'' @ containerName @ ''-rdr.redirectregex.regex'' \<mapsto>
              ''/'' @ roomName @ ''$$'',
            ''traefik.http.middlewares.'' @ containerName @ ''-rdr.redirectregex.replacement'' \<mapsto>
              ''/'' @ roomName @ ''/'',
            ''traefik.http.middlewares.'' @ containerName @ ''-prf.stripprefix.prefixes'' \<mapsto>
              ''/'' @ roomName @ ''/'',
            ''traefik.http.routers.'' @ containerName @ ''.middlewares'' \<mapsto>
              containerName @ ''-rdr,'' @ containerName @ ''-prf'']
      in if TraefikCertresolver cfg \<noteq> []
         then labels(
            ''traefik.http.routers.'' @ containerName @ ''.tls'' \<mapsto> ''true'',
            ''traefik.http.routers.'' @ containerName @ ''.tls.certresolver'' \<mapsto>
              TraefikCertresolver cfg)
         else labels)"

text \<open>
  \<^verbatim>\<open>config\<close>, \<^verbatim>\<open>hostConfig\<close> and \<^verbatim>\<open>networkingConfig\<close> of Create, from the two maps
  the loop has filled.
\<close>

definition Create_config ::
  "('s, 'o) RoomManagerCtx \<Rightarrow> 'o RoomSettings \<Rightarrow> string \<Rightarrow> EprPorts \<Rightarrow> PortSet
     \<Rightarrow> ContainerConfig" where
  "Create_config manager settings roomName epr exposedPorts = \<lparr>
     Hostname = containerPrefix @ roomName,
     Domainname = containerPrefix @ roomName,
     ExposedPorts = exposedPorts,
     Env = [
       ''NEKO_BIND='' @ fmt_d frontendPort,
       ''NEKO_EPR='' @ fmt_d (Min_epr epr) @ ''-'' @ fmt_d (Max_epr epr),
       ''NEKO_NAT1TO1='' @ Join (NAT1To1IPs (config manager)) '','']
       @ ToEnv manager settings,
     ContainerConfig.Image = nekoImage,
     ContainerConfig.Labels = Create_labels (config manager) roomName epr\<rparr>"

definition Create_hostConfig :: "PortMap \<Rightarrow> HostConfig" where
  "Create_hostConfig portBindings = \<lparr>
     PortBindings = portBindings,
     LogConfig = \<lparr>Type = ''json-file'', LogConfig.Config = Map.empty\<rparr>,
     RestartPolicy = \<lparr>RestartPolicy.Name = ''always''\<rparr>,
     CapAdd = [''SYS_ADMIN''],
     ShmSize = 20000000000\<rparr>"

definition Create_networkingConfig :: "Room \<Rightarrow> NetworkingConfig" where
  "Create_networkingConfig cfg = \<lparr>EndpointsConfig = [TraefikNetwork cfg \<mapsto> ()]\<rparr>"

text \<open>
  The room name: the one of the settings, or a generated identifier of 32 characters when
  it is empty.
\<close>

definition Create_roomName ::
  "('s, 'o) RoomManagerCtx \<Rightarrow> 'o RoomSettings \<Rightarrow> 's \<Rightarrow> (error + string) \<times> 's" where
  "Create_roomName manager settings s =
     (if RoomSettings.Name settings = [] then NewUID manager 32 s
      else (Inr (RoomSettings.Name settings), s))"

text \<open>
  Create: the name, the ports, the loop over the ports, the workload specification, then
  the engine's create and start. A Go result \<^verbatim>\<open>("", err)\<close> is \<open>Inl err\<close>, a result
  \<^verbatim>\<open>(cont.ID, nil)\<close> is \<open>Inr\<close> of the identifier; the whole result is \<open>None\<close> when
  the loop over the ports never returns.
\<close>

definition Create ::
  "('s, 'o) RoomManagerCtx \<Rightarrow> 'o RoomSettings \<Rightarrow> 's \<Rightarrow> ((error + string) \<times> 's) option" where
  "Create manager settings s =
     (case Create_roomName manager settings s of
        (Inl err, s1) \<Rightarrow> Some (Inl err, s1)
      | (Inr roomName, s1) \<Rightarrow>
         (case allocatePorts manager (RoomSettings.MaxConnections settings) s1 of
            Inl err \<Rightarrow> Some (Inl err, s1)
          | Inr epr \<Rightarrow>
             (case Create_ports (portType manager) (Min_epr epr) (Max_epr epr)
                     (Map.empty, {portKey frontendPort}) of
                None \<Rightarrow> None
              | Some (portBindings, exposedPorts) \<Rightarrow>
                 (case ContainerCreate (client manager)
                         (Create_config manager settings roomName epr exposedPorts)
                         (Create_hostConfig portBindings)
                         (Create_networkingConfig (config manager))
                         (containerPrefix @ roomName) s1 of
                    (Inl err, s2) \<Rightarrow> Some (Inl err, s2)
                  | (Inr contID, s2) \<Rightarrow>
                     (case ContainerStart (client manager) contID s2 of
                        (Some err, s3) \<Rightarrow> Some (Inl err, s3)
                      | (None, s3) \<Rightarrow> Some (Inr contID, s3))))))"

subsection \<open>Get\<close>

text \<open>
  Get returns a pair: \<^verbatim>\<open>(nil, err)\<close> on the early returns, and at the end the settings
  together with whatever \<^verbatim>\<open>FromEnv\<close> returned. \<^verbatim>\<open>epr.Max - epr.Min + 1\<close> is computed
  in the integer type of the bounds and wraps around.
\<close>

definition Get ::
  "('s, 'o) RoomManagerCtx \<Rightarrow> string \<Rightarrow> 's \<Rightarrow> 'o RoomSettings option \<times> error option" where
  "Get manager ident s =
     (case inspectContainer manager ident s of
        Inl err \<Rightarrow> (None, Some err)
      | Inr container \<Rightarrow>
         (case ContainerConfig.Labels (ContainerJSON.Config container) ''m1k1o.neko_rooms.name'' of
            None \<Rightarrow> (None, Some (Errorf ''Damaged container labels: name not found.''))
          | Some roomName \<Rightarrow>
             (case getEprFromLabels (portType manager)
                     (ContainerConfig.Labels (ContainerJSON.Config container)) of
                Inl err \<Rightarrow> (None, Some err)
              | Inr epr \<Rightarrow>
                 (case FromEnv manager
                         \<lparr>RoomSettings.Name = roomName,
                          RoomSettings.MaxConnections =
                            wrapInt (portType manager) (Max_epr epr - Min_epr epr + 1),
                          Options = zeroOptions manager\<rparr>
                         (Env (ContainerJSON.Config container)) of
                    (settings, err) \<Rightarrow> (Some settings, err)))))"

subsection \<open>Remove, Start, Stop, Restart\<close>

definition Remove :: "('s, 'o) RoomManagerCtx \<Rightarrow> string \<Rightarrow> 's \<Rightarrow> error option \<times> 's" where
  "Remove manager ident s =
     (case inspectContainer manager ident s of
        Inl err \<Rightarrow> (Some err, s)
      | Inr _ \<Rightarrow>
         (case ContainerStop (client manager) ident s of
            (Some err, s1) \<Rightarrow> (Some err, s1)
          | (None, s1) \<Rightarrow>
              ContainerRemove (client manager) ident \<lparr>RemoveVolumes = True, Force = True\<rparr> s1))"

definition Start :: "('s, 'o) RoomManagerCtx \<Rightarrow> string \<Rightarrow> 's \<Rightarrow> error option \<times> 's" where
  "Start manager ident s =
     (case inspectContainer manager ident s of
        Inl err \<Rightarrow> (Some err, s)
      | Inr _ \<Rightarrow> ContainerStart (client manager) ident s)"

definition Stop :: "('s, 'o) RoomManagerCtx \<Rightarrow> string \<Rightarrow> 's \<Rightarrow> error option \<times> 's" where
  "Stop manager ident s =
     (case inspectContainer manager ident s of
        Inl err \<Rightarrow> (Some err, s)
      | Inr _ \<Rightarrow> ContainerStop (client manager) ident s)"

definition Restart :: "('s, 'o) RoomManagerCtx \<Rightarrow> string \<Rightarrow> 's \<Rightarrow> error option \<times> 's" where
  "Restart manager ident s =
     (case inspectContainer manager ident s of
        Inl err \<Rightarrow> (Some err, s)
      | Inr _ \<Rightarrow> ContainerRestart (client manager) ident s)"

section \<open>An in-memory engine for worked examples\<close>

text \<open>
  The worked examples below run the manager against a small engine whose state is the
  list of the workloads it holds. Creating appends a stopped workload whose identifier is
  its name; starting fails when the engine is built with \<open>startFails\<close>, as the real
  engine does when it cannot set up the published ports; the settings schema has no
  options of its own, and the ports are 16-bit unsigned integers.
\<close>

record Workload =
  w_ID :: string
  w_Config :: ContainerConfig
  w_Running :: bool

definition summary :: "Workload \<Rightarrow> Container" where
  "summary w = \<lparr>
     Container.ID = w_ID w,
     Container.Image = ContainerConfig.Image (w_Config w),
     State = (if w_Running w then ''running'' else ''exited''),
     Container.Status = [],
     Container.Created = 0,
     Container.Labels = ContainerConfig.Labels (w_Config w)\<rparr>"

definition setRunning :: "string \<Rightarrow> bool \<Rightarrow> Workload list \<Rightarrow> Workload list" where
  "setRunning ident b s = map (\<lambda>w. if w_ID w = ident then w\<lparr>w_Running := b\<rparr> else w) s"

definition memClient :: "bool \<Rightarrow> Workload list Client" where
  "memClient startFails = \<lparr>
     ContainerList = (\<lambda>s. Inr (map summary s)),
     ContainerInspect = (\<lambda>ident s.
       case find (\<lambda>w. w_ID w = ident) s of
         None \<Rightarrow> Inl (External ''No such container'')
       | Some w \<Rightarrow> Inr \<lparr>ContainerJSON.ID = ident, Config = w_Config w\<rparr>),
     ContainerCreate = (\<lambda>cfg hostCfg netCfg name s.
       (Inr name, s @ [\<lparr>w_ID = name, w_Config = cfg, w_Running = False\<rparr>])),
     ContainerStart = (\<lambda>ident s.
       if startFails then (Some (External ''driver failed programming external connectivity''), s)
       else (None, setRunning ident True s)),
     ContainerStop = (\<lambda>ident s. (None, setRunning ident False s)),
     ContainerRestart = (\<lambda>ident s. (None, setRunning ident True s)),
     ContainerRemove = (\<lambda>ident opts s. (None, filter (\<lambda>w. w_ID w \<noteq> ident) s))\<rparr>"

definition memManager :: "Room \<Rightarrow> bool \<Rightarrow> (Workload list, unit) RoomManagerCtx" where
  "memManager cfg startFails = \<lparr>
     config = cfg,
     client = memClient startFails,
     NewUID = (\<lambda>n s. (Inr (replicate n CHR ''x''), s)),
     ToEnv = (\<lambda>settings. []),
     FromEnv = (\<lambda>settings env. (settings, None)),
     zeroOptions = (),
     portType = Uint16\<rparr>"

definition exampleRoom :: Room where
  "exampleRoom = \<lparr>
     TraefikDomain = ''example.org'',
     TraefikEntrypoint = ''web'',
     TraefikCertresolver = [],
     TraefikNetwork = ''traefik'',
     NAT1To1IPs = [''10.0.0.1'', ''10.0.0.2''],
     PortWindow = \<lparr>Min_epr = 59000, Max_epr = 59009\<rparr>\<rparr>"

text \<open>A workload with the given identifier and labels, stopped.\<close>

definition workload :: "string \<Rightarrow> labelmap \<Rightarrow> Workload" where
  "workload ident labels = \<lparr>
     w_ID = ident,
     w_Config = \<lparr>Hostname = ident, Domainname = ident, ExposedPorts = {}, Env = [],
       ContainerConfig.Image = nekoImage, ContainerConfig.Labels = labels\<rparr>,
     w_Running = False\<rparr>"

text \<open>
  An inventory of two workloads: one of another system, without the canary label but
  with labels that look like a room's, and the room \<open>lobby\<close> as Create labels it for
  the range 59000 to 59004; and the entry List builds for that room.
\<close>

definition exampleInventory :: "Workload list" where
  "exampleInventory =
     [workload ''db'' [
        ''m1k1o.neko_rooms.name'' \<mapsto> ''db'',
        ''m1k1o.neko_rooms.url'' \<mapsto> ''http://example.org/db/'',
        ''m1k1o.neko_rooms.epr.min'' \<mapsto> ''59005'',
        ''m1k1o.neko_rooms.epr.max'' \<mapsto> ''59006''],
      workload ''neko-room-lobby''
        (Create_labels exampleRoom ''lobby'' \<lparr>Min_epr = 59000, Max_epr = 59004\<rparr>)]"

definition lobbyEntry :: RoomEntry where
  "lobbyEntry = \<lparr>
     RoomEntry.ID = ''neko-room-lobby'',
     RoomEntry.URL = ''http://example.org/lobby/'',
     RoomEntry.Name = ''lobby'',
     RoomEntry.MaxConnections = 5,
     RoomEntry.Image = ''m1k1o/neko:latest'',
     RoomEntry.Running = False,
     RoomEntry.Status = [],
     RoomEntry.Created = 0\<rparr>"



section \<open>Words of the claims about List\<close>

text \<open>
  The metadata of a workload is damaged when the name label or the url label is missing,
  or one of the two bounds of the port range is missing or is not a decimal number of
  the integer type of the bounds. An
  entry is the entry of a workload when it carries the workload's identifier, image,
  state, status and creation time, the name and url of its labels, and the capacity
  \<^verbatim>\<open>epr.Max - epr.Min + 1\<close>, computed in that type, of the port range its labels decode
  to.
\<close>

definition damaged :: "intType \<Rightarrow> labelmap \<Rightarrow> bool" where
  "damaged ty labels =
     (labels ''m1k1o.neko_rooms.name'' = None
      \<or> labels ''m1k1o.neko_rooms.url'' = None
      \<or> (case labels ''m1k1o.neko_rooms.epr.min'' of
            None \<Rightarrow> True | Some v \<Rightarrow> parseDecimal ty v = None)
      \<or> (case labels ''m1k1o.neko_rooms.epr.max'' of
            None \<Rightarrow> True | Some v \<Rightarrow> parseDecimal ty v = None))"

definition entryOf :: "intType \<Rightarrow> Container \<Rightarrow> RoomEntry \<Rightarrow> bool" where
  "entryOf ty c e =
     (case getEprFromLabels ty (Container.Labels c) of
        Inl err \<Rightarrow> False
      | Inr epr \<Rightarrow>
          RoomEntry.ID e = Container.ID c
          \<and> Container.Labels c ''m1k1o.neko_rooms.name'' = Some (RoomEntry.Name e)
          \<and> Container.Labels c ''m1k1o.neko_rooms.url'' = Some (RoomEntry.URL e)
          \<and> RoomEntry.MaxConnections e = wrapInt ty (Max_epr epr - Min_epr epr + 1)
          \<and> RoomEntry.Image e = Container.Image c
          \<and> RoomEntry.Running e = (Container.State c = ''running'')
          \<and> RoomEntry.Status e = Container.Status c
          \<and> RoomEntry.Created e = Container.Created c)"

section \<open>Go's integer arithmetic\<close>

lemma intBits_pos: "0 < intBits ty"
  by (cases ty) simp_all

lemma pow_intBits: "(2::int) ^ intBits ty = 2 * 2 ^ (intBits ty - 1)"
  using intBits_pos [of ty] by (cases "intBits ty") simp_all

lemma wrapInt_id: "minInt ty \<le> x \<Longrightarrow> x \<le> maxInt ty \<Longrightarrow> wrapInt ty x = x"
  by (auto simp: wrapInt_def minInt_def maxInt_def pow_intBits split: if_splits)

lemma wrapInt_range: "minInt ty \<le> wrapInt ty x \<and> wrapInt ty x \<le> maxInt ty"
proof (cases "isSigned ty")
  case True
  have "0 \<le> (x + 2 ^ (intBits ty - 1)) mod 2 ^ intBits ty"
    and "(x + 2 ^ (intBits ty - 1)) mod 2 ^ intBits ty < 2 ^ intBits ty"
    by simp_all
  with True show ?thesis
    by (simp add: wrapInt_def minInt_def maxInt_def pow_intBits)
next
  case False
  have "0 \<le> x mod 2 ^ intBits ty" and "x mod 2 ^ intBits ty < 2 ^ intBits ty"
    by simp_all
  with False show ?thesis
    by (simp add: wrapInt_def minInt_def maxInt_def)
qed

text \<open>
  Wrapping once at the end of a sum is the same as wrapping after each operation, as Go
  does.
\<close>

lemma wrapInt_wrap_add: "wrapInt ty (wrapInt ty x + y) = wrapInt ty (x + y)"
proof (cases "isSigned ty")
  case True
  have "((x + 2 ^ (intBits ty - 1)) mod 2 ^ intBits ty + y) mod 2 ^ intBits ty =
      (x + 2 ^ (intBits ty - 1) + y) mod 2 ^ intBits ty"
    by (rule mod_add_left_eq)
  with True show ?thesis
    by (simp add: wrapInt_def algebra_simps)
next
  case False
  then show ?thesis
    by (simp add: wrapInt_def mod_add_left_eq)
qed


lemma maxInt_pos: "0 < maxInt ty"
  by (cases ty) (simp_all add: maxInt_def)

lemma wrapInt_max_succ: "wrapInt ty (maxInt ty + 1) = minInt ty"
  by (cases ty) (simp_all add: wrapInt_def minInt_def maxInt_def)

lemma maxInt_Uint16: "maxInt Uint16 = 65535"
  by (simp add: maxInt_def)

lemma minInt_Uint16: "minInt Uint16 = 0"
  by (simp add: minInt_def)

section \<open>Decimal rendering and parsing\<close>

lemma fmt_nat_small: "n < 10 \<Longrightarrow> fmt_nat n = [digitChar n]"
  by (subst fmt_nat.simps) simp

lemma fmt_nat_big: "\<not> n < 10 \<Longrightarrow> fmt_nat n = fmt_nat (n div 10) @ [digitChar (n mod 10)]"
  by (subst fmt_nat.simps) simp

lemma fmt_nat_nonempty: "fmt_nat n \<noteq> []"
  by (cases "n < 10") (simp_all add: fmt_nat_small fmt_nat_big)

lemma digit_cases: "d < 10 \<Longrightarrow> d \<in> {0, 1, 2, 3, 4, 5, 6, 7, 8, 9 :: nat}"
  by auto

lemma digitVal_digitChar: "d < 10 \<Longrightarrow> digitVal (digitChar d) = Some d"
  using digit_cases [of d] by (auto simp: digitVal_def digitChar_def)

lemma digitChar_not_minus: "d < 10 \<Longrightarrow> digitChar d \<noteq> CHR ''-''"
  using digit_cases [of d] by (auto simp: digitChar_def)

lemma parseDigits_snoc:
  "parseDigits acc (xs @ [c]) =
     (case parseDigits acc xs of
        None \<Rightarrow> None
      | Some v \<Rightarrow> (case digitVal c of None \<Rightarrow> None | Some d \<Rightarrow> Some (v * 10 + d)))"
  by (induction xs arbitrary: acc) (auto split: option.splits)

lemma parseDigits_fmt_nat: "parseDigits 0 (fmt_nat n) = Some n"
proof (induction n rule: fmt_nat.induct)
  case (1 n)
  show ?case
  proof (cases "n < 10")
    case True
    then show ?thesis by (simp add: fmt_nat_small digitVal_digitChar)
  next
    case False
    then have "parseDigits 0 (fmt_nat (n div 10)) = Some (n div 10)"
      using 1 by simp
    with False show ?thesis
      by (simp add: fmt_nat_big parseDigits_snoc digitVal_digitChar)
  qed
qed

lemma fmt_nat_inj: "fmt_nat a = fmt_nat b \<Longrightarrow> a = b"
  by (metis parseDigits_fmt_nat option.inject)

lemma fmt_nat_hd: "hd (fmt_nat n) \<noteq> CHR ''-''"
proof (induction n rule: fmt_nat.induct)
  case (1 n)
  show ?case
  proof (cases "n < 10")
    case True
    then show ?thesis by (simp add: fmt_nat_small digitChar_not_minus)
  next
    case False
    then have "hd (fmt_nat (n div 10)) \<noteq> CHR ''-''"
      using 1 by simp
    with False show ?thesis
      by (simp add: fmt_nat_big fmt_nat_nonempty)
  qed
qed

lemma fmt_nat_not_minus: "fmt_nat m \<noteq> CHR ''-'' # xs"
  using fmt_nat_hd [of m] by (metis list.sel(1))

lemma parseDecimal_fmt_d:
  "0 \<le> i \<Longrightarrow> i \<le> maxInt ty \<Longrightarrow> parseDecimal ty (fmt_d i) = Some i"
  by (simp add: parseDecimal_def fmt_d_def fmt_nat_nonempty parseDigits_fmt_nat)


lemma fmt_d_inj: "fmt_d a = fmt_d b \<Longrightarrow> a = b"
proof -
  assume eq: "fmt_d a = fmt_d b"
  consider "a < 0" "b < 0" | "a < 0" "0 \<le> b" | "0 \<le> a" "b < 0" | "0 \<le> a" "0 \<le> b"
    by linarith
  then show ?thesis
  proof cases
    case 1
    with eq have "nat (- a) = nat (- b)"
      by (auto simp: fmt_d_def dest: fmt_nat_inj)
    with 1 show ?thesis by simp
  next
    case 2
    with eq have "CHR ''-'' # fmt_nat (nat (- a)) = fmt_nat (nat b)"
      by (simp add: fmt_d_def)
    then show ?thesis using fmt_nat_not_minus [of "nat b"] by metis
  next
    case 3
    with eq have "fmt_nat (nat a) = CHR ''-'' # fmt_nat (nat (- b))"
      by (simp add: fmt_d_def)
    then show ?thesis using fmt_nat_not_minus [of "nat a"] by metis
  next
    case 4
    with eq have "nat a = nat b"
      by (auto simp: fmt_d_def dest: fmt_nat_inj)
    with 4 show ?thesis by simp
  qed
qed

lemma fmt_d_eq_iff: "fmt_d a = fmt_d b \<longleftrightarrow> a = b"
  using fmt_d_inj by blast

lemma portKey_eq_iff: "portKey a = portKey b \<longleftrightarrow> a = b"
  by (simp add: portKey_def fmt_d_eq_iff)

lemma fmt_d_numeral: "fmt_d (numeral k) = fmt_nat (numeral k)"
  by (simp add: fmt_d_def)

lemma fmt_d_8080: "fmt_d 8080 = ''8080''"
  by (simp add: fmt_d_numeral fmt_nat_small fmt_nat_big digitChar_def)

section \<open>The environment of a created workload\<close>

text \<open>
  C7. The environment that Create passes to the engine starts with the bind port, set to
  the constant control port 8080 whatever the room is, the external port range written
  MIN-MAX from the allocated range, and the address-translation hint, the configured
  NAT addresses joined with commas (nothing after the equals sign when there are none);
  the variables derived from the settings follow.
\<close>

theorem Create_env_contract:
  "Env (Create_config manager settings roomName epr exposedPorts) =
     [''NEKO_BIND=8080'',
      ''NEKO_EPR='' @ fmt_d (Min_epr epr) @ ''-'' @ fmt_d (Max_epr epr),
      ''NEKO_NAT1TO1='' @ Join (NAT1To1IPs (config manager)) '','']
     @ ToEnv manager settings
   \<and> Join [] '','' = []
   \<and> Join [a, b, c] '','' = a @ '','' @ b @ '','' @ c"
  by (simp add: Create_config_def frontendPort_def fmt_d_8080)

theorem Create_env_contract_witness:
  "Env (Create_config (memManager exampleRoom False)
          \<lparr>RoomSettings.Name = ''lobby'', RoomSettings.MaxConnections = 5, Options = ()\<rparr>
          ''lobby'' \<lparr>Min_epr = 59000, Max_epr = 59004\<rparr> {''8080/udp''}) =
     [''NEKO_BIND=8080'', ''NEKO_EPR=59000-59004'', ''NEKO_NAT1TO1=10.0.0.1,10.0.0.2'']"
  using Create_env_contract [of "memManager exampleRoom False"
      "\<lparr>RoomSettings.Name = ''lobby'', RoomSettings.MaxConnections = 5, Options = ()\<rparr>"
      "''lobby''" "\<lparr>Min_epr = 59000, Max_epr = 59004\<rparr>" "{''8080/udp''}"]
  by (simp add: memManager_def exampleRoom_def fmt_d_numeral fmt_nat_small fmt_nat_big
      digitChar_def)

section \<open>The metadata written by Create\<close>

lemma Create_labels_name:
  "Create_labels cfg roomName epr ''m1k1o.neko_rooms.name'' = Some roomName"
  by (simp add: Create_labels_def Let_def containerPrefix_def)

lemma Create_labels_url:
  "Create_labels cfg roomName epr ''m1k1o.neko_rooms.url'' =
     Some (Create_urlProto cfg @ ''://'' @ TraefikDomain cfg @ ''/'' @ roomName @ ''/'')"
  by (simp add: Create_labels_def Let_def containerPrefix_def)

lemma Create_labels_canary:
  "Create_labels cfg roomName epr ''m1k1o.neko_rooms.canary'' = Some labelCanary"
  by (simp add: Create_labels_def Let_def containerPrefix_def)

lemma Create_labels_epr_min:
  "Create_labels cfg roomName epr ''m1k1o.neko_rooms.epr.min'' = Some (fmt_d (Min_epr epr))"
  by (simp add: Create_labels_def Let_def containerPrefix_def)

lemma Create_labels_epr_max:
  "Create_labels cfg roomName epr ''m1k1o.neko_rooms.epr.max'' = Some (fmt_d (Max_epr epr))"
  by (simp add: Create_labels_def Let_def containerPrefix_def)

lemma Create_labels_tls:
  "Create_labels cfg roomName epr (''traefik.http.routers.'' @ containerPrefix @ roomName @ ''.tls'') =
     (if TraefikCertresolver cfg \<noteq> [] then Some ''true'' else None)"
  by (simp add: Create_labels_def Let_def containerPrefix_def)

lemma Create_labels_certresolver:
  "Create_labels cfg roomName epr
     (''traefik.http.routers.'' @ containerPrefix @ roomName @ ''.tls.certresolver'') =
     (if TraefikCertresolver cfg \<noteq> [] then Some (TraefikCertresolver cfg) else None)"
  by (simp add: Create_labels_def Let_def containerPrefix_def)

lemma getEprFromLabels_Create_labels:
  "0 \<le> Min_epr epr \<Longrightarrow> 0 \<le> Max_epr epr \<Longrightarrow>
   Min_epr epr \<le> maxInt ty \<Longrightarrow> Max_epr epr \<le> maxInt ty \<Longrightarrow>
   getEprFromLabels ty (Create_labels cfg roomName epr) = Inr epr"
  by (simp add: getEprFromLabels_def Create_labels_epr_min Create_labels_epr_max
      parseDecimal_fmt_d)

lemma hasCanary_Create_labels: "hasCanary (Create_labels cfg roomName epr)"
  by (simp add: hasCanary_def Create_labels_canary)

text \<open>
  C9. The url label written by Create is scheme://domain/roomName/ with the configured
  domain; the scheme is https exactly when a certificate resolver is configured (it is
  not the empty string) and http otherwise. The two TLS labels of the room's router, the
  tls flag and the certresolver name, are present exactly when the certificate resolver
  is configured, and then hold \<open>true\<close> and the resolver's name.
\<close>

theorem Create_url_and_tls_labels:
  "Create_labels cfg roomName epr ''m1k1o.neko_rooms.url'' =
     Some (Create_urlProto cfg @ ''://'' @ TraefikDomain cfg @ ''/'' @ roomName @ ''/'')
   \<and> Create_urlProto cfg = (if TraefikCertresolver cfg \<noteq> [] then ''https'' else ''http'')
   \<and> (Create_urlProto cfg = ''https'') = (TraefikCertresolver cfg \<noteq> [])
   \<and> Create_labels cfg roomName epr
         (''traefik.http.routers.'' @ containerPrefix @ roomName @ ''.tls'') =
       (if TraefikCertresolver cfg \<noteq> [] then Some ''true'' else None)
   \<and> Create_labels cfg roomName epr
         (''traefik.http.routers.'' @ containerPrefix @ roomName @ ''.tls.certresolver'') =
       (if TraefikCertresolver cfg \<noteq> [] then Some (TraefikCertresolver cfg) else None)"
  by (intro conjI Create_labels_url Create_labels_tls Create_labels_certresolver)
    (simp_all add: Create_urlProto_def)

theorem Create_url_and_tls_labels_witness:
  "Create_labels exampleRoom ''lobby'' \<lparr>Min_epr = 59000, Max_epr = 59004\<rparr>
     ''m1k1o.neko_rooms.url'' = Some ''http://example.org/lobby/''
   \<and> Create_labels exampleRoom ''lobby'' \<lparr>Min_epr = 59000, Max_epr = 59004\<rparr>
     ''traefik.http.routers.neko-room-lobby.tls'' = None
   \<and> Create_labels (exampleRoom\<lparr>TraefikCertresolver := ''le''\<rparr>) ''lobby''
     \<lparr>Min_epr = 59000, Max_epr = 59004\<rparr> ''m1k1o.neko_rooms.url'' =
     Some ''https://example.org/lobby/''
   \<and> Create_labels (exampleRoom\<lparr>TraefikCertresolver := ''le''\<rparr>) ''lobby''
     \<lparr>Min_epr = 59000, Max_epr = 59004\<rparr>
     ''traefik.http.routers.neko-room-lobby.tls.certresolver'' = Some ''le''"
  using Create_url_and_tls_labels [of exampleRoom "''lobby''" "\<lparr>Min_epr = 59000, Max_epr = 59004\<rparr>"]
    Create_url_and_tls_labels [of "exampleRoom\<lparr>TraefikCertresolver := ''le''\<rparr>" "''lobby''"
      "\<lparr>Min_epr = 59000, Max_epr = 59004\<rparr>"]
  by (simp add: exampleRoom_def containerPrefix_def)

text \<open>
  C4. Round trip. The labels Create writes are a function of the configuration, the room
  name and the port range. For a range whose bounds are non-negative values of the
  integer type of the bounds, reading the labels back gives the room name, the url and
  the same port range: the decoder of the range returns the range, the loop of List
  builds the entry with that name, that url and the capacity of the range, and Get
  builds the settings with that name and capacity before it hands them to FromEnv.
\<close>

theorem labels_roundtrip:
  assumes "0 \<le> Min_epr epr" and "0 \<le> Max_epr epr"
    and "Min_epr epr \<le> maxInt ty" and "Max_epr epr \<le> maxInt ty"
    and "labels =
      ContainerConfig.Labels (Create_config manager settings roomName epr exposedPorts)"
    and "url = Create_urlProto (config manager) @ ''://'' @ TraefikDomain (config manager)
           @ ''/'' @ roomName @ ''/''"
  shows "labels ''m1k1o.neko_rooms.name'' = Some roomName
     \<and> labels ''m1k1o.neko_rooms.url'' = Some url
     \<and> getEprFromLabels ty labels = Inr epr
     \<and> List_loop ty [c\<lparr>Container.Labels := labels\<rparr>] [] = Inr [\<lparr>
          RoomEntry.ID = Container.ID c,
          RoomEntry.URL = url,
          RoomEntry.Name = roomName,
          RoomEntry.MaxConnections = wrapInt ty (Max_epr epr - Min_epr epr + 1),
          RoomEntry.Image = Container.Image c,
          RoomEntry.Running = (Container.State c = ''running''),
          RoomEntry.Status = Container.Status c,
          RoomEntry.Created = Container.Created c\<rparr>]
     \<and> (portType m = ty \<and> ContainerInspect (client m) ident s =
            Inr \<lparr>ContainerJSON.ID = ident, Config = cc\<lparr>ContainerConfig.Labels := labels\<rparr>\<rparr>
          \<longrightarrow> Get m ident s =
            (Some (fst (FromEnv m \<lparr>RoomSettings.Name = roomName,
                      RoomSettings.MaxConnections =
                        wrapInt ty (Max_epr epr - Min_epr epr + 1),
                      Options = zeroOptions m\<rparr> (Env cc))),
             snd (FromEnv m \<lparr>RoomSettings.Name = roomName,
                      RoomSettings.MaxConnections =
                        wrapInt ty (Max_epr epr - Min_epr epr + 1),
                      Options = zeroOptions m\<rparr> (Env cc))))"
proof -
  have l: "labels = Create_labels (config manager) roomName epr"
    using assms(5) by (simp add: Create_config_def)
  have epr: "getEprFromLabels ty labels = Inr epr"
    using assms(1-4) l by (simp add: getEprFromLabels_Create_labels)
  have name: "labels ''m1k1o.neko_rooms.name'' = Some roomName"
    using l by (simp add: Create_labels_name)
  have u: "labels ''m1k1o.neko_rooms.url'' = Some url"
    using l assms(6) by (simp add: Create_labels_url)
  have canary: "hasCanary labels"
    using l by (simp add: hasCanary_Create_labels)
  have lst: "List_loop ty [c\<lparr>Container.Labels := labels\<rparr>] [] = Inr [\<lparr>
          RoomEntry.ID = Container.ID c,
          RoomEntry.URL = url,
          RoomEntry.Name = roomName,
          RoomEntry.MaxConnections = wrapInt ty (Max_epr epr - Min_epr epr + 1),
          RoomEntry.Image = Container.Image c,
          RoomEntry.Running = (Container.State c = ''running''),
          RoomEntry.Status = Container.Status c,
          RoomEntry.Created = Container.Created c\<rparr>]"
    by (simp add: name u epr)
  have get: "Get m ident s =
            (Some (fst (FromEnv m \<lparr>RoomSettings.Name = roomName,
                      RoomSettings.MaxConnections =
                        wrapInt ty (Max_epr epr - Min_epr epr + 1),
                      Options = zeroOptions m\<rparr> (Env cc))),
             snd (FromEnv m \<lparr>RoomSettings.Name = roomName,
                      RoomSettings.MaxConnections =
                        wrapInt ty (Max_epr epr - Min_epr epr + 1),
                      Options = zeroOptions m\<rparr> (Env cc)))"
    if "portType m = ty \<and> ContainerInspect (client m) ident s =
            Inr \<lparr>ContainerJSON.ID = ident, Config = cc\<lparr>ContainerConfig.Labels := labels\<rparr>\<rparr>"
    using that by (simp add: Get_def inspectContainer_def canary name epr split: prod.splits)
  show ?thesis using name u epr lst get by blast
qed


theorem labels_roundtrip_witness:
  "(0::int) \<le> 59000 \<and> (0::int) \<le> 59004
   \<and> (59000::int) \<le> maxInt Uint16 \<and> (59004::int) \<le> maxInt Uint16
   \<and> getEprFromLabels Uint16 (ContainerConfig.Labels (Create_config (memManager exampleRoom False)
         \<lparr>RoomSettings.Name = ''lobby'', RoomSettings.MaxConnections = 5, Options = ()\<rparr>
         ''lobby'' \<lparr>Min_epr = 59000, Max_epr = 59004\<rparr> {}))
       = Inr \<lparr>Min_epr = 59000, Max_epr = 59004\<rparr>
   \<and> List_loop Uint16 [summary (workload ''w1''
         (ContainerConfig.Labels (Create_config (memManager exampleRoom False)
           \<lparr>RoomSettings.Name = ''lobby'', RoomSettings.MaxConnections = 5, Options = ()\<rparr>
           ''lobby'' \<lparr>Min_epr = 59000, Max_epr = 59004\<rparr> {})))] []
       = Inr [\<lparr>RoomEntry.ID = ''w1'', RoomEntry.URL = ''http://example.org/lobby/'',
           RoomEntry.Name = ''lobby'', RoomEntry.MaxConnections = 5,
           RoomEntry.Image = ''m1k1o/neko:latest'', RoomEntry.Running = False,
           RoomEntry.Status = [], RoomEntry.Created = 0\<rparr>]
   \<and> Get (memManager exampleRoom False) ''w1'' [workload ''w1''
         (ContainerConfig.Labels (Create_config (memManager exampleRoom False)
           \<lparr>RoomSettings.Name = ''lobby'', RoomSettings.MaxConnections = 5, Options = ()\<rparr>
           ''lobby'' \<lparr>Min_epr = 59000, Max_epr = 59004\<rparr> {}))]
       = (Some \<lparr>RoomSettings.Name = ''lobby'', RoomSettings.MaxConnections = 5, Options = ()\<rparr>,
          None)"
proof -
  let ?M = "memManager exampleRoom False"
  let ?E = "\<lparr>Min_epr = 59000, Max_epr = 59004\<rparr>"
  let ?L = "ContainerConfig.Labels (Create_config ?M
         \<lparr>RoomSettings.Name = ''lobby'', RoomSettings.MaxConnections = 5, Options = ()\<rparr>
         ''lobby'' ?E {})"
  have h: "(0::int) \<le> Min_epr ?E" "(0::int) \<le> Max_epr ?E"
    "Min_epr ?E \<le> maxInt Uint16" "Max_epr ?E \<le> maxInt Uint16"
    by (simp_all add: maxInt_Uint16)
  have cap: "wrapInt Uint16 (Max_epr ?E - Min_epr ?E + 1) = 5"
    by (simp add: wrapInt_def)
  have pt: "portType ?M = Uint16"
    by (simp add: memManager_def)
  note t = labels_roundtrip [OF h refl refl, of ?M
        "\<lparr>RoomSettings.Name = ''lobby'', RoomSettings.MaxConnections = 5, Options = ()\<rparr>"
        "''lobby''" "{}" "summary (workload ''w1'' ?L)" ?M "''w1''" "[workload ''w1'' ?L]"
        "w_Config (workload ''w1'' ?L)"]
  have same: "(summary (workload ''w1'' ?L))\<lparr>Container.Labels := ?L\<rparr> = summary (workload ''w1'' ?L)"
    by (simp add: summary_def workload_def)
  have insp: "ContainerInspect (client ?M) ''w1'' [workload ''w1'' ?L] =
      Inr \<lparr>ContainerJSON.ID = ''w1'',
           Config = (w_Config (workload ''w1'' ?L))\<lparr>ContainerConfig.Labels := ?L\<rparr>\<rparr>"
    by (simp add: memManager_def memClient_def workload_def)
  have url: "Create_urlProto (config ?M) @ ''://'' @ TraefikDomain (config ?M) @ ''/'' @ ''lobby'' @ ''/''
      = ''http://example.org/lobby/''"
    by (simp add: memManager_def exampleRoom_def Create_urlProto_def)
  have ids: "Container.ID (summary (workload ''w1'' ?L)) = ''w1''"
    "Container.Image (summary (workload ''w1'' ?L)) = ''m1k1o/neko:latest''"
    "Container.State (summary (workload ''w1'' ?L)) = ''exited''"
    "Container.Status (summary (workload ''w1'' ?L)) = []"
    "Container.Created (summary (workload ''w1'' ?L)) = 0"
    "Env (w_Config (workload ''w1'' ?L)) = []"
    by (simp_all add: summary_def workload_def nekoImage_def)
  have fe: "FromEnv ?M st env = (st, None)" for st env
    by (simp add: memManager_def)
  have z: "zeroOptions ?M = ()"
    by simp
  from t [unfolded same url ids fe z cap] insp pt show ?thesis
    by (simp add: maxInt_Uint16)
qed

section \<open>The ports published by Create\<close>

lemma publish_fst_key:
  "fst (foldl Create_publish (pb, ep) ps) (portKey p) =
     (if p \<in> set ps then Some [\<lparr>HostIP = ''0.0.0.0'', HostPort = fmt_d p\<rparr>]
      else pb (portKey p))"
  by (induction ps arbitrary: pb ep) (auto simp: Create_publish_def portKey_eq_iff)

lemma publish_fst_other:
  "\<forall>p\<in>set ps. k \<noteq> portKey p \<Longrightarrow> fst (foldl Create_publish (pb, ep) ps) k = pb k"
  by (induction ps arbitrary: pb ep) (auto simp: Create_publish_def)

lemma publish_snd: "snd (foldl Create_publish (pb, ep) ps) = ep \<union> portKey ` set ps"
  by (induction ps arbitrary: pb ep) (auto simp: Create_publish_def)

lemma publish_dom:
  "fst (foldl Create_publish (Map.empty, ep) ps) k \<noteq> None \<longleftrightarrow> (\<exists>p\<in>set ps. k = portKey p)"
proof (cases "\<exists>p\<in>set ps. k = portKey p")
  case True
  then show ?thesis by (auto simp: publish_fst_key)
next
  case False
  then have "fst (foldl Create_publish (Map.empty, ep) ps) k = None"
    by (subst publish_fst_other) auto
  with False show ?thesis by simp
qed

text \<open>
  The loop returns when the upper bound is below the largest value of the integer type:
  it has then published the ports from the lower bound to the upper bound, in order.
\<close>

lemma Create_ports_returns:
  "minInt ty \<le> port \<Longrightarrow> mx < maxInt ty \<Longrightarrow>
   Create_ports ty port mx maps = Some (foldl Create_publish maps [port..mx])"
proof (induction "nat (mx + 1 - port)" arbitrary: port maps)
  case 0
  then have "\<not> port \<le> mx" by simp
  then show ?case by (subst Create_ports.simps) simp
next
  case (Suc n)
  then have le: "port \<le> mx" by simp
  with Suc.prems have w: "wrapInt ty (port + 1) = port + 1"
    by (intro wrapInt_id) simp_all
  have "Create_ports ty (port + 1) mx (Create_publish maps port) =
      Some (foldl Create_publish (Create_publish maps port) [port + 1..mx])"
    using Suc.hyps(2) Suc.prems le by (intro Suc.hyps(1)) simp_all
  with le w show ?case
    by (subst Create_ports.simps) (simp add: upto_rec1)
qed

text \<open>
  The loop never returns when the upper bound is the largest value of the type and the
  range is not empty: the counter wraps around to the smallest value and stays below the
  bound.
\<close>

lemma Create_ports_runs_on:
  assumes "Create_ports ty port mx maps = Some r"
  shows "\<not> (mx = maxInt ty \<and> minInt ty \<le> port \<and> port \<le> maxInt ty)"
  using assms
proof (induction rule: Create_ports.raw_induct [rotated 1, consumes 1])
  case (1 rec ty port mx maps r)
  show ?case
  proof
    assume h: "mx = maxInt ty \<and> minInt ty \<le> port \<and> port \<le> maxInt ty"
    with 1(2) have "rec ty (wrapInt ty (port + 1)) mx (Create_publish maps port) = Some r"
      by simp
    from 1(1) [OF this] h wrapInt_range [of ty "port + 1"] show False
      by simp
  qed
qed

lemma Create_ports_never_returns:
  "minInt ty \<le> port \<Longrightarrow> port \<le> maxInt ty \<Longrightarrow> Create_ports ty port (maxInt ty) maps = None"
  using Create_ports_runs_on [of ty port "maxInt ty" maps]
  by (cases "Create_ports ty port (maxInt ty) maps") auto

lemma portKey_8080: "portKey frontendPort = ''8080/udp''"
  by (simp add: portKey_def frontendPort_def fmt_d_8080)

text \<open>
  C6, as amended. For an allocated range whose upper bound is below the largest value of
  the integer type of the bounds, the loop of Create returns, and then: Create binds
  every port p of the range, under the key p/udp, to the host port with the same number
  on 0.0.0.0, and binds nothing else: every key of the port-binding map is the key of a
  port of the range. The exposed ports are the control port 8080/udp and the ports of
  the range. The control port is exposed but has no host binding, unless 8080 itself lies
  in the allocated range.
\<close>

theorem Create_published_ports:
  assumes "minInt ty \<le> Min_epr epr" and "Max_epr epr < maxInt ty"
  shows "\<exists>portBindings exposedPorts.
     Create_ports ty (Min_epr epr) (Max_epr epr) (Map.empty, {portKey frontendPort}) =
       Some (portBindings, exposedPorts)
     \<and> (\<forall>p. Min_epr epr \<le> p \<and> p \<le> Max_epr epr \<longrightarrow>
          PortBindings (Create_hostConfig portBindings) (fmt_d p @ ''/udp'') =
            Some [\<lparr>HostIP = ''0.0.0.0'', HostPort = fmt_d p\<rparr>])
     \<and> (\<forall>k. PortBindings (Create_hostConfig portBindings) k \<noteq> None \<longrightarrow>
          (\<exists>p. Min_epr epr \<le> p \<and> p \<le> Max_epr epr \<and> k = fmt_d p @ ''/udp''))
     \<and> ExposedPorts (Create_config manager settings roomName epr exposedPorts) =
          insert ''8080/udp'' ((\<lambda>p. fmt_d p @ ''/udp'') ` {Min_epr epr..Max_epr epr})
     \<and> (PortBindings (Create_hostConfig portBindings) ''8080/udp'' \<noteq> None) =
          (Min_epr epr \<le> 8080 \<and> 8080 \<le> Max_epr epr)"
proof -
  define r where
    "r = foldl Create_publish (Map.empty, {portKey frontendPort}) [Min_epr epr..Max_epr epr]"
  have run: "Create_ports ty (Min_epr epr) (Max_epr epr) (Map.empty, {portKey frontendPort}) =
      Some (fst r, snd r)"
    using Create_ports_returns [OF assms] by (simp add: r_def)
  have pk: "portKey = (\<lambda>p. fmt_d p @ ''/udp'')"
    by (rule ext) (simp add: portKey_def)
  have a: "PortBindings (Create_hostConfig (fst r)) (fmt_d p @ ''/udp'') =
          Some [\<lparr>HostIP = ''0.0.0.0'', HostPort = fmt_d p\<rparr>]"
    if "Min_epr epr \<le> p \<and> p \<le> Max_epr epr" for p
    using that publish_fst_key [of Map.empty "{portKey frontendPort}"
        "[Min_epr epr..Max_epr epr]" p]
    by (simp add: Create_hostConfig_def r_def portKey_def)
  have b: "\<exists>p. Min_epr epr \<le> p \<and> p \<le> Max_epr epr \<and> k = fmt_d p @ ''/udp''"
    if "PortBindings (Create_hostConfig (fst r)) k \<noteq> None" for k
    using that publish_dom [of "{portKey frontendPort}" "[Min_epr epr..Max_epr epr]" k]
    by (auto simp: Create_hostConfig_def r_def portKey_def)
  have c: "ExposedPorts (Create_config manager settings roomName epr (snd r)) =
        insert ''8080/udp'' ((\<lambda>p. fmt_d p @ ''/udp'') ` {Min_epr epr..Max_epr epr})"
    using portKey_8080 by (simp add: Create_config_def r_def publish_snd pk)
  have "(fst r (portKey frontendPort) \<noteq> None) =
        (Min_epr epr \<le> frontendPort \<and> frontendPort \<le> Max_epr epr)"
    unfolding r_def publish_dom by (auto simp: portKey_eq_iff)
  then have d: "(PortBindings (Create_hostConfig (fst r)) ''8080/udp'' \<noteq> None) =
        (Min_epr epr \<le> 8080 \<and> 8080 \<le> Max_epr epr)"
    by (simp add: Create_hostConfig_def portKey_8080 [unfolded frontendPort_def]
        frontendPort_def)
  show ?thesis
    using run a b c d by blast
qed

lemma fmt_d_59000: "fmt_d 59000 = ''59000''"
  by (simp add: fmt_d_numeral fmt_nat_small fmt_nat_big digitChar_def)

lemma fmt_d_59001: "fmt_d 59001 = ''59001''"
  by (simp add: fmt_d_numeral fmt_nat_small fmt_nat_big digitChar_def)

theorem Create_published_ports_witness:
  "minInt Uint16 \<le> 59000 \<and> (59001::int) < maxInt Uint16
   \<and> Create_ports Uint16 59000 59001 (Map.empty, {portKey frontendPort}) =
       Some (foldl Create_publish (Map.empty, {portKey frontendPort}) [59000, 59001])
   \<and> PortBindings (Create_hostConfig
         (fst (foldl Create_publish (Map.empty, {portKey frontendPort}) [59000, 59001])))
       ''59000/udp'' = Some [\<lparr>HostIP = ''0.0.0.0'', HostPort = ''59000''\<rparr>]
   \<and> PortBindings (Create_hostConfig
         (fst (foldl Create_publish (Map.empty, {portKey frontendPort}) [59000, 59001])))
       ''59001/udp'' = Some [\<lparr>HostIP = ''0.0.0.0'', HostPort = ''59001''\<rparr>]
   \<and> PortBindings (Create_hostConfig
         (fst (foldl Create_publish (Map.empty, {portKey frontendPort}) [59000, 59001])))
       ''8080/udp'' = None
   \<and> ''8080/udp'' \<in> ExposedPorts (Create_config (memManager exampleRoom False)
         \<lparr>RoomSettings.Name = ''lobby'', RoomSettings.MaxConnections = 2, Options = ()\<rparr>
         ''lobby'' \<lparr>Min_epr = 59000, Max_epr = 59001\<rparr>
         (snd (foldl Create_publish (Map.empty, {portKey frontendPort}) [59000, 59001])))
   \<and> (\<exists>p. 59000 \<le> p \<and> p \<le> 59001 \<and> ''59001/udp'' = fmt_d p @ ''/udp'')"
proof -
  let ?E = "\<lparr>Min_epr = 59000, Max_epr = 59001\<rparr>"
  let ?R = "foldl Create_publish (Map.empty, {portKey frontendPort}) [59000, 59001]"
  have h: "minInt Uint16 \<le> Min_epr ?E" "Max_epr ?E < maxInt Uint16"
    by (simp_all add: minInt_Uint16 maxInt_Uint16)
  have run: "Create_ports Uint16 59000 59001 (Map.empty, {portKey frontendPort}) = Some ?R"
    using Create_ports_returns [of Uint16 59000 59001] h by (simp add: upto_rec1)
  from Create_published_ports [OF h, of "memManager exampleRoom False"
      "\<lparr>RoomSettings.Name = ''lobby'', RoomSettings.MaxConnections = 2, Options = ()\<rparr>"
      "''lobby''"]
  obtain pb ep where
    r: "Create_ports Uint16 59000 59001 (Map.empty, {portKey frontendPort}) = Some (pb, ep)"
    and t1: "\<And>p. 59000 \<le> p \<and> p \<le> 59001 \<Longrightarrow>
          PortBindings (Create_hostConfig pb) (fmt_d p @ ''/udp'') =
            Some [\<lparr>HostIP = ''0.0.0.0'', HostPort = fmt_d p\<rparr>]"
    and t2: "\<And>k. PortBindings (Create_hostConfig pb) k \<noteq> None \<Longrightarrow>
          (\<exists>p. 59000 \<le> p \<and> p \<le> 59001 \<and> k = fmt_d p @ ''/udp'')"
    and t3: "ExposedPorts (Create_config (memManager exampleRoom False)
         \<lparr>RoomSettings.Name = ''lobby'', RoomSettings.MaxConnections = 2, Options = ()\<rparr>
         ''lobby'' ?E ep) =
          insert ''8080/udp'' ((\<lambda>p. fmt_d p @ ''/udp'') ` {59000..59001})"
    and t4: "(PortBindings (Create_hostConfig pb) ''8080/udp'' \<noteq> None) =
          ((59000::int) \<le> 8080 \<and> (8080::int) \<le> 59001)"
    by auto
  from r run have eq: "?R = (pb, ep)" by simp
  have a: "PortBindings (Create_hostConfig pb) ''59000/udp'' =
      Some [\<lparr>HostIP = ''0.0.0.0'', HostPort = ''59000''\<rparr>]"
    using t1 [of 59000] by (simp add: fmt_d_59000)
  have b: "PortBindings (Create_hostConfig pb) ''59001/udp'' =
      Some [\<lparr>HostIP = ''0.0.0.0'', HostPort = ''59001''\<rparr>]"
    using t1 [of 59001] by (simp add: fmt_d_59001)
  have c: "PortBindings (Create_hostConfig pb) ''8080/udp'' = None"
    using t4 by simp
  have d: "''8080/udp'' \<in> ExposedPorts (Create_config (memManager exampleRoom False)
         \<lparr>RoomSettings.Name = ''lobby'', RoomSettings.MaxConnections = 2, Options = ()\<rparr>
         ''lobby'' ?E ep)"
    using t3 by simp
  have e: "\<exists>p. 59000 \<le> p \<and> p \<le> 59001 \<and> ''59001/udp'' = fmt_d p @ ''/udp''"
    using t2 [of "''59001/udp''"] b by simp
  show ?thesis
    using h run a b c d e unfolding eq by simp
qed

text \<open>
  C6 as stated fails: for the range 100 to 101, which every integer type holds and for
  which the loop returns, the port-binding map of the workload has no entry for the
  control port, neither over udp, as the port is exposed, nor over tcp.
\<close>

theorem control_port_not_bound:
  "Create_ports Int8 100 101 (Map.empty, {portKey frontendPort}) =
     Some (foldl Create_publish (Map.empty, {portKey frontendPort}) [100, 101])
   \<and> Create_ports Int16 100 101 (Map.empty, {portKey frontendPort}) =
     Some (foldl Create_publish (Map.empty, {portKey frontendPort}) [100, 101])
   \<and> Create_ports Int32 100 101 (Map.empty, {portKey frontendPort}) =
     Some (foldl Create_publish (Map.empty, {portKey frontendPort}) [100, 101])
   \<and> Create_ports Int64 100 101 (Map.empty, {portKey frontendPort}) =
     Some (foldl Create_publish (Map.empty, {portKey frontendPort}) [100, 101])
   \<and> Create_ports Uint8 100 101 (Map.empty, {portKey frontendPort}) =
     Some (foldl Create_publish (Map.empty, {portKey frontendPort}) [100, 101])
   \<and> Create_ports Uint16 100 101 (Map.empty, {portKey frontendPort}) =
     Some (foldl Create_publish (Map.empty, {portKey frontendPort}) [100, 101])
   \<and> Create_ports Uint32 100 101 (Map.empty, {portKey frontendPort}) =
     Some (foldl Create_publish (Map.empty, {portKey frontendPort}) [100, 101])
   \<and> Create_ports Uint64 100 101 (Map.empty, {portKey frontendPort}) =
     Some (foldl Create_publish (Map.empty, {portKey frontendPort}) [100, 101])
   \<and> PortBindings (Create_hostConfig
         (fst (foldl Create_publish (Map.empty, {portKey frontendPort}) [100, 101])))
       (fmt_d frontendPort @ ''/udp'') = None
   \<and> PortBindings (Create_hostConfig
         (fst (foldl Create_publish (Map.empty, {portKey frontendPort}) [100, 101])))
       (fmt_d frontendPort @ ''/tcp'') = None"
proof -
  let ?R = "foldl Create_publish (Map.empty, {portKey frontendPort}) [100, 101]"
  have run: "Create_ports ty 100 101 (Map.empty, {portKey frontendPort}) = Some ?R" for ty
  proof -
    have "minInt ty \<le> 100" "101 < maxInt ty"
      by (cases ty; simp add: minInt_def maxInt_def)+
    from Create_ports_returns [OF this] show ?thesis
      by (simp add: upto_rec1)
  qed
  have udp: "fst ?R (portKey frontendPort) = None"
    using publish_dom [of "{portKey frontendPort}" "[100, 101]" "portKey frontendPort"]
    by (simp add: portKey_eq_iff frontendPort_def)
  have "fmt_d frontendPort @ ''/tcp'' \<noteq> portKey p" for p
  proof
    assume "fmt_d frontendPort @ ''/tcp'' = portKey p"
    then have "rev (fmt_d frontendPort @ ''/tcp'') = rev (portKey p)" by simp
    then show False by (simp add: portKey_def)
  qed
  then have tcp: "fst ?R (fmt_d frontendPort @ ''/tcp'') = None"
    using publish_dom [of "{portKey frontendPort}" "[100, 101]" "fmt_d frontendPort @ ''/tcp''"]
    by blast
  show ?thesis
    using run udp tcp by (simp add: Create_hostConfig_def portKey_def)
qed

section \<open>The port allocator\<close>

lemma overlaps_common_port:
  "Min_epr a \<le> Max_epr a \<Longrightarrow> Min_epr b \<le> Max_epr b \<Longrightarrow>
   overlaps a b \<longleftrightarrow> (\<exists>p. Min_epr a \<le> p \<and> p \<le> Max_epr a \<and> Min_epr b \<le> p \<and> p \<le> Max_epr b)"
  unfolding overlaps_def
  by (metis order_trans linorder_le_cases)

lemma not_overlaps_disjoint:
  "\<not> overlaps a b \<Longrightarrow> {Min_epr a..Max_epr a} \<inter> {Min_epr b..Max_epr b} = {}"
  by (auto simp: overlaps_def)

lemma scanGaps_sound:
  "sorted (map Min_epr rs) \<Longrightarrow> scanGaps n hi g rs = Inr a \<Longrightarrow>
   g \<le> Min_epr a \<and> Max_epr a = Min_epr a + n - 1 \<and> Max_epr a \<le> hi
   \<and> (\<forall>r\<in>set rs. Max_epr a < Min_epr r \<or> Max_epr r < Min_epr a)"
proof (induction rs arbitrary: g)
  case Nil
  then show ?case by (auto simp: takeGap_def split: if_splits)
next
  case (Cons r rs)
  show ?case
  proof (cases "g + n - 1 < Min_epr r")
    case True
    with Cons.prems show ?thesis
      by (fastforce simp: takeGap_def split: if_splits)
  next
    case False
    with Cons.prems have "scanGaps n hi (max g (Max_epr r + 1)) rs = Inr a"
      and "sorted (map Min_epr rs)" by simp_all
    from Cons.IH [OF this(2) this(1)] show ?thesis by auto
  qed
qed

lemma scanGaps_minimal:
  "scanGaps n hi g rs = Inr a \<Longrightarrow> g \<le> s \<Longrightarrow>
   \<forall>r\<in>set rs. s + n - 1 < Min_epr r \<or> Max_epr r < s \<Longrightarrow> Min_epr a \<le> s"
proof (induction rs arbitrary: g)
  case Nil
  then show ?case by (auto simp: takeGap_def split: if_splits)
next
  case (Cons r rs)
  show ?case
  proof (cases "g + n - 1 < Min_epr r")
    case True
    with Cons.prems show ?thesis
      by (auto simp: takeGap_def split: if_splits)
  next
    case False
    with Cons.prems have run: "scanGaps n hi (max g (Max_epr r + 1)) rs = Inr a"
      by simp
    from False Cons.prems(2,3) have "Max_epr r < s" by auto
    with Cons.prems(2) have "max g (Max_epr r + 1) \<le> s" by simp
    from Cons.IH [OF run this] Cons.prems(3) show ?thesis by simp
  qed
qed

lemma scanGaps_complete:
  "scanGaps n hi g rs = Inl e \<Longrightarrow> g \<le> s \<Longrightarrow> s + n - 1 \<le> hi \<Longrightarrow>
   \<exists>r\<in>set rs. \<not> (s + n - 1 < Min_epr r \<or> Max_epr r < s)"
proof (induction rs arbitrary: g)
  case Nil
  then show ?case by (auto simp: takeGap_def split: if_splits)
next
  case (Cons r rs)
  show ?case
  proof (cases "g + n - 1 < Min_epr r")
    case True
    with Cons.prems show ?thesis
      by (auto simp: takeGap_def split: if_splits)
  next
    case False
    with Cons.prems have run: "scanGaps n hi (max g (Max_epr r + 1)) rs = Inl e"
      by simp
    show ?thesis
    proof (cases "Max_epr r < s")
      case True
      with Cons.prems(2) have "max g (Max_epr r + 1) \<le> s" by simp
      from Cons.IH [OF run this Cons.prems(3)] show ?thesis by auto
    next
      case no: False
      with False Cons.prems(2) show ?thesis by auto
    qed
  qed
qed

lemma scanGaps_error: "scanGaps n hi g rs = Inl e \<Longrightarrow> e = PortExhaustionError"
  by (induction rs arbitrary: g) (auto simp: takeGap_def split: if_splits)

lemma freeBlock_iff:
  "freeBlock n w rs s \<longleftrightarrow>
     Min_epr w \<le> s \<and> s + n - 1 \<le> Max_epr w
     \<and> (\<forall>r\<in>set rs. s + n - 1 < Min_epr r \<or> Max_epr r < s)"
  by (auto simp: freeBlock_def overlaps_def list_all_iff)

text \<open>
  The allocator on a list of ranges: for a size of at least 1 it returns the lowest free
  block when there is one, and fails with PortExhaustionError when there is none.
\<close>

lemma allocate_lowest_free:
  assumes "1 \<le> requestedSize"
  shows "case allocate requestedSize globalWindow existingRanges of
           Inr a \<Rightarrow>
             Max_epr a = Min_epr a + requestedSize - 1
             \<and> Min_epr globalWindow \<le> Min_epr a \<and> Max_epr a \<le> Max_epr globalWindow
             \<and> (\<forall>r\<in>set existingRanges. \<not> overlaps a r)
             \<and> (\<forall>r\<in>set existingRanges.
                   {Min_epr a..Max_epr a} \<inter> {Min_epr r..Max_epr r} = {})
             \<and> freeBlock requestedSize globalWindow existingRanges (Min_epr a)
             \<and> (\<forall>start. freeBlock requestedSize globalWindow existingRanges start
                   \<longrightarrow> Min_epr a \<le> start)
         | Inl e \<Rightarrow>
             e = PortExhaustionError
             \<and> (\<forall>start. \<not> freeBlock requestedSize globalWindow existingRanges start)"
proof -
  define rs where "rs = sort_key Min_epr existingRanges"
  have sorted: "sorted (map Min_epr rs)" and set: "set rs = set existingRanges"
    by (simp_all add: rs_def)
  have run: "allocate requestedSize globalWindow existingRanges =
      scanGaps requestedSize (Max_epr globalWindow) (Min_epr globalWindow) rs"
    using assms by (simp add: allocate_def rs_def)
  show ?thesis
  proof (cases "allocate requestedSize globalWindow existingRanges")
    case (Inr a)
    with run have sc: "scanGaps requestedSize (Max_epr globalWindow) (Min_epr globalWindow) rs = Inr a"
      by simp
    from scanGaps_sound [OF sorted sc] set
    have a: "Min_epr globalWindow \<le> Min_epr a" "Max_epr a = Min_epr a + requestedSize - 1"
      "Max_epr a \<le> Max_epr globalWindow"
      "\<forall>r\<in>set existingRanges. Max_epr a < Min_epr r \<or> Max_epr r < Min_epr a"
      by auto
    have no: "\<forall>r\<in>set existingRanges. \<not> overlaps a r"
      using a(4) by (auto simp: overlaps_def)
    have dis: "\<forall>r\<in>set existingRanges. {Min_epr a..Max_epr a} \<inter> {Min_epr r..Max_epr r} = {}"
      using no not_overlaps_disjoint by blast
    have free: "freeBlock requestedSize globalWindow existingRanges (Min_epr a)"
      using a by (simp add: freeBlock_iff)
    have least: "Min_epr a \<le> start"
      if "freeBlock requestedSize globalWindow existingRanges start" for start
      using that scanGaps_minimal [OF sc, of start] set by (simp add: freeBlock_iff)
    show ?thesis
      using Inr a no dis free least by simp
  next
    case (Inl e)
    with run have sc: "scanGaps requestedSize (Max_epr globalWindow) (Min_epr globalWindow) rs = Inl e"
      by simp
    have none: "\<not> freeBlock requestedSize globalWindow existingRanges start" for start
      using scanGaps_complete [OF sc, of start] set by (auto simp: freeBlock_iff)
    show ?thesis
      using Inl scanGaps_error [OF sc] none by simp
  qed
qed

lemma getUsedPorts_decodes:
  "getUsedPorts ty cs = Inr rs \<Longrightarrow>
   list_all2 (\<lambda>c r. getEprFromLabels ty (Container.Labels c) = Inr r) cs rs"
  by (induction cs arbitrary: rs) (auto split: sum.splits)

lemma list_all2_left_witness:
  "list_all2 P xs ys \<Longrightarrow> x \<in> set xs \<Longrightarrow> \<exists>y\<in>set ys. P x y"
  by (induction rule: list_all2_induct) auto

text \<open>
  C1. The allocation Create performs. Take any inventory the engine lists, whose
  canary-marked workloads all decode to port ranges: the existing leased ranges. A
  requested size of at least 1 fits the window when some block of that size inside the
  window overlaps none of them. Then \<open>allocatePorts\<close> returns a range; and whenever it
  returns a range, the range has exactly the requested size, lies inside the configured
  window, overlaps (shares a port with) no existing range, so none of any canary-marked
  workload of the inventory, and starts at the lowest start of a free block (first
  fit). Its only failure there is PortExhaustionError, exactly when no block is free. The
  result is a function of the size, the configuration and the inventory.
\<close>

theorem allocatePorts_first_fit:
  assumes "1 \<le> requestedSize"
    and "ContainerList (client manager) s = Inr inventory"
    and "getUsedPorts (portType manager)
           (filter (\<lambda>c. hasCanary (Container.Labels c)) inventory) = Inr existing"
  shows "list_all2 (\<lambda>c r. getEprFromLabels (portType manager) (Container.Labels c) = Inr r)
           (filter (\<lambda>c. hasCanary (Container.Labels c)) inventory) existing
     \<and> (case allocatePorts manager requestedSize s of
           Inr a \<Rightarrow>
             Max_epr a = Min_epr a + requestedSize - 1
             \<and> Min_epr (PortWindow (config manager)) \<le> Min_epr a
             \<and> Max_epr a \<le> Max_epr (PortWindow (config manager))
             \<and> (\<forall>r\<in>set existing. \<not> overlaps a r)
             \<and> (\<forall>r\<in>set existing.
                   {Min_epr a..Max_epr a} \<inter> {Min_epr r..Max_epr r} = {})
             \<and> (\<forall>c\<in>set inventory. hasCanary (Container.Labels c) \<longrightarrow>
                   (\<exists>r. getEprFromLabels (portType manager) (Container.Labels c) = Inr r
                        \<and> \<not> overlaps a r))
             \<and> freeBlock requestedSize (PortWindow (config manager)) existing (Min_epr a)
             \<and> (\<forall>start. freeBlock requestedSize (PortWindow (config manager)) existing start
                   \<longrightarrow> Min_epr a \<le> start)
         | Inl e \<Rightarrow>
             e = PortExhaustionError
             \<and> (\<forall>start. \<not> freeBlock requestedSize (PortWindow (config manager)) existing
                            start))
     \<and> ((\<exists>start. freeBlock requestedSize (PortWindow (config manager)) existing start)
          \<longrightarrow> (\<exists>a. allocatePorts manager requestedSize s = Inr a))"
proof -
  let ?rooms = "filter (\<lambda>c. hasCanary (Container.Labels c)) inventory"
  let ?w = "PortWindow (config manager)"
  have dec: "list_all2 (\<lambda>c r. getEprFromLabels (portType manager) (Container.Labels c) = Inr r)
      ?rooms existing"
    using assms(3) by (rule getUsedPorts_decodes)
  have run: "allocatePorts manager requestedSize s = allocate requestedSize ?w existing"
    using assms(2,3) by (simp add: allocatePorts_def listContainers_def)
  note spec = allocate_lowest_free [OF assms(1), of ?w existing]
  have covered: "\<exists>r. getEprFromLabels (portType manager) (Container.Labels c) = Inr r
      \<and> \<not> overlaps a r"
    if "\<forall>r\<in>set existing. \<not> overlaps a r" and "c \<in> set inventory"
      and "hasCanary (Container.Labels c)" for a c
  proof -
    from that(2,3) have "c \<in> set ?rooms" by simp
    from list_all2_left_witness [OF dec this] that(1) show ?thesis by blast
  qed
  show ?thesis
  proof (cases "allocate requestedSize ?w existing")
    case (Inr a)
    with spec covered [of a] dec run show ?thesis
      by auto
  next
    case (Inl e)
    with spec dec run show ?thesis
      by auto
  qed
qed

lemma getUsedPorts_example:
  "getUsedPorts Uint16 [summary (workload ''neko-room-lobby''
      (Create_labels exampleRoom ''lobby'' \<lparr>Min_epr = 59000, Max_epr = 59004\<rparr>))] =
   Inr [\<lparr>Min_epr = 59000, Max_epr = 59004\<rparr>]"
  by (simp add: summary_def workload_def getEprFromLabels_Create_labels maxInt_Uint16)

lemma filter_example:
  "filter (\<lambda>c. hasCanary (Container.Labels c)) (map summary exampleInventory) =
   [summary (workload ''neko-room-lobby''
      (Create_labels exampleRoom ''lobby'' \<lparr>Min_epr = 59000, Max_epr = 59004\<rparr>))]"
  by (simp add: exampleInventory_def summary_def workload_def hasCanary_def
      Create_labels_canary)

theorem allocatePorts_first_fit_witness:
  "(1::int) \<le> 5
   \<and> ContainerList (client (memManager exampleRoom False)) exampleInventory =
       Inr (map summary exampleInventory)
   \<and> getUsedPorts (portType (memManager exampleRoom False))
         (filter (\<lambda>c. hasCanary (Container.Labels c)) (map summary exampleInventory)) =
       Inr [\<lparr>Min_epr = 59000, Max_epr = 59004\<rparr>]
   \<and> freeBlock 5 \<lparr>Min_epr = 59000, Max_epr = 59009\<rparr> [\<lparr>Min_epr = 59000, Max_epr = 59004\<rparr>] 59005
   \<and> allocatePorts (memManager exampleRoom False) 5 exampleInventory =
       Inr \<lparr>Min_epr = 59005, Max_epr = 59009\<rparr>
   \<and> allocatePorts (memManager exampleRoom False) 5 [] = Inr \<lparr>Min_epr = 59000, Max_epr = 59004\<rparr>
   \<and> allocatePorts (memManager exampleRoom False) 6 exampleInventory = Inl PortExhaustionError"
proof -
  let ?M = "memManager exampleRoom False"
  have one: "(1::int) \<le> 5" "(1::int) \<le> 6" by simp_all
  have pt: "portType ?M = Uint16" and w: "PortWindow (config ?M) = \<lparr>Min_epr = 59000, Max_epr = 59009\<rparr>"
    by (simp_all add: memManager_def exampleRoom_def)
  have l: "ContainerList (client ?M) exampleInventory = Inr (map summary exampleInventory)"
    and l0: "ContainerList (client ?M) [] = Inr []"
    by (simp_all add: memManager_def memClient_def)
  have u: "getUsedPorts (portType ?M)
         (filter (\<lambda>c. hasCanary (Container.Labels c)) (map summary exampleInventory)) =
       Inr [\<lparr>Min_epr = 59000, Max_epr = 59004\<rparr>]"
    unfolding pt filter_example by (rule getUsedPorts_example)
  have u0: "getUsedPorts (portType ?M) (filter (\<lambda>c. hasCanary (Container.Labels c)) []) = Inr []"
    by simp
  have f5: "freeBlock 5 \<lparr>Min_epr = 59000, Max_epr = 59009\<rparr> [\<lparr>Min_epr = 59000, Max_epr = 59004\<rparr>] 59005"
    by (simp add: freeBlock_def overlaps_def)
  have a5: "allocate 5 \<lparr>Min_epr = 59000, Max_epr = 59009\<rparr> [\<lparr>Min_epr = 59000, Max_epr = 59004\<rparr>] =
      Inr \<lparr>Min_epr = 59005, Max_epr = 59009\<rparr>"
    and a0: "allocate 5 \<lparr>Min_epr = 59000, Max_epr = 59009\<rparr> [] = Inr \<lparr>Min_epr = 59000, Max_epr = 59004\<rparr>"
    and a6: "allocate 6 \<lparr>Min_epr = 59000, Max_epr = 59009\<rparr> [\<lparr>Min_epr = 59000, Max_epr = 59004\<rparr>] =
      Inl PortExhaustionError"
    by (simp_all add: allocate_def takeGap_def)
  have r5: "allocatePorts ?M 5 exampleInventory = Inr \<lparr>Min_epr = 59005, Max_epr = 59009\<rparr>"
    and r0: "allocatePorts ?M 5 [] = Inr \<lparr>Min_epr = 59000, Max_epr = 59004\<rparr>"
    and r6: "allocatePorts ?M 6 exampleInventory = Inl PortExhaustionError"
    using l l0 u u0 by (simp_all add: allocatePorts_def listContainers_def w a5 a0 a6)
  from allocatePorts_first_fit [OF one(1) l u, unfolded w] f5
  have "\<exists>a. allocatePorts ?M 5 exampleInventory = Inr a" by blast
  moreover from allocatePorts_first_fit [OF one(2) l u, unfolded w r6]
  have "\<forall>start. \<not> freeBlock 6 \<lparr>Min_epr = 59000, Max_epr = 59009\<rparr>
      [\<lparr>Min_epr = 59000, Max_epr = 59004\<rparr>] start"
    by simp
  ultimately show ?thesis
    using one l u f5 r5 r0 r6 by simp
qed

section \<open>List and Get\<close>

lemma getEprFromLabels_Inl_iff:
  "(\<exists>err. getEprFromLabels ty labels = Inl err) \<longleftrightarrow>
     (case labels ''m1k1o.neko_rooms.epr.min'' of
            None \<Rightarrow> True | Some v \<Rightarrow> parseDecimal ty v = None)
      \<or> (case labels ''m1k1o.neko_rooms.epr.max'' of
            None \<Rightarrow> True | Some v \<Rightarrow> parseDecimal ty v = None)"
  by (auto simp: getEprFromLabels_def split: option.splits)

lemma List_loop_damaged:
  "list_ex (\<lambda>c. damaged ty (Container.Labels c)) cs \<Longrightarrow> \<exists>err. List_loop ty cs acc = Inl err"
proof (induction cs arbitrary: acc)
  case Nil
  then show ?case by simp
next
  case (Cons c cs)
  show ?case
  proof (cases "damaged ty (Container.Labels c)")
    case True
    then show ?thesis
      using getEprFromLabels_Inl_iff [of ty "Container.Labels c"]
      by (auto simp: damaged_def split: option.splits sum.splits)
  next
    case False
    with Cons.prems have "list_ex (\<lambda>c. damaged ty (Container.Labels c)) cs" by simp
    from Cons.IH [OF this] show ?thesis
      by (auto split: option.splits sum.splits)
  qed
qed

lemma List_loop_Inr:
  "List_loop ty cs acc = Inr es \<Longrightarrow>
   \<not> list_ex (\<lambda>c. damaged ty (Container.Labels c)) cs
   \<and> (\<exists>es'. es = acc @ es' \<and> list_all2 (entryOf ty) cs es')"
proof (induction cs arbitrary: acc)
  case Nil
  then show ?case by simp
next
  case (Cons c cs)
  from Cons.prems obtain roomName url epr where
    name: "Container.Labels c ''m1k1o.neko_rooms.name'' = Some roomName"
    and url: "Container.Labels c ''m1k1o.neko_rooms.url'' = Some url"
    and epr: "getEprFromLabels ty (Container.Labels c) = Inr epr"
    by (auto split: option.splits sum.splits)
  define e where "e = \<lparr>
      RoomEntry.ID = Container.ID c,
      RoomEntry.URL = url,
      RoomEntry.Name = roomName,
      RoomEntry.MaxConnections = wrapInt ty (Max_epr epr - Min_epr epr + 1),
      RoomEntry.Image = Container.Image c,
      RoomEntry.Running = (Container.State c = ''running''),
      RoomEntry.Status = Container.Status c,
      RoomEntry.Created = Container.Created c\<rparr>"
  have run: "List_loop ty cs (acc @ [e]) = Inr es"
    using Cons.prems name url epr by (simp add: e_def)
  from Cons.IH [OF run] obtain es' where
    ok: "\<not> list_ex (\<lambda>c. damaged ty (Container.Labels c)) cs"
    and es: "es = (acc @ [e]) @ es'" and all: "list_all2 (entryOf ty) cs es'"
    by blast
  have "entryOf ty c e"
    by (simp add: entryOf_def epr name url e_def)
  moreover have "\<not> damaged ty (Container.Labels c)"
    using name url epr getEprFromLabels_Inl_iff [of ty "Container.Labels c"]
    by (auto simp: damaged_def)
  ultimately show ?case
    using ok es all by auto
qed

lemma List_loop_total:
  "\<not> list_ex (\<lambda>c. damaged ty (Container.Labels c)) cs \<Longrightarrow> \<exists>es. List_loop ty cs acc = Inr es"
proof (induction cs arbitrary: acc)
  case Nil
  then show ?case by simp
next
  case (Cons c cs)
  then have nd: "\<not> damaged ty (Container.Labels c)"
    and rest: "\<not> list_ex (\<lambda>c. damaged ty (Container.Labels c)) cs"
    by simp_all
  from nd obtain roomName url where
    name: "Container.Labels c ''m1k1o.neko_rooms.name'' = Some roomName"
    and url: "Container.Labels c ''m1k1o.neko_rooms.url'' = Some url"
    by (auto simp: damaged_def)
  from nd getEprFromLabels_Inl_iff [of ty "Container.Labels c"]
  obtain epr where epr: "getEprFromLabels ty (Container.Labels c) = Inr epr"
    by (cases "getEprFromLabels ty (Container.Labels c)") (auto simp: damaged_def)
  show ?case
    using Cons.IH [OF rest] by (simp add: name url epr)
qed

lemma entryOf_ID: "list_all2 (entryOf ty) cs es \<Longrightarrow> map RoomEntry.ID es = map Container.ID cs"
  by (induction rule: list_all2_induct) (auto simp: entryOf_def split: sum.splits)

lemma hasCanary_db:
  "\<not> hasCanary [
        ''m1k1o.neko_rooms.name'' \<mapsto> ''db'',
        ''m1k1o.neko_rooms.url'' \<mapsto> ''http://example.org/db/'',
        ''m1k1o.neko_rooms.epr.min'' \<mapsto> ''59005'',
        ''m1k1o.neko_rooms.epr.max'' \<mapsto> ''59006'']"
  by (simp add: hasCanary_def)

lemma listContainers_example:
  "listContainers (memManager exampleRoom b) exampleInventory =
     Inr [summary (workload ''neko-room-lobby''
        (Create_labels exampleRoom ''lobby'' \<lparr>Min_epr = 59000, Max_epr = 59004\<rparr>))]"
  by (simp add: listContainers_def memManager_def memClient_def exampleInventory_def
      summary_def workload_def hasCanary_Create_labels hasCanary_db)

lemma List_example: "List (memManager exampleRoom b) exampleInventory = Inr [lobbyEntry]"
  by (simp add: List_def listContainers_example)
    (simp add: summary_def workload_def lobbyEntry_def Create_labels_name Create_labels_url
      getEprFromLabels_Create_labels exampleRoom_def Create_urlProto_def nekoImage_def
      memManager_def maxInt_Uint16 wrapInt_def)



text \<open>
  C2. List returns every room or fails entirely. For the canary-marked workloads that
  the listing returns: if the metadata of any one of them is damaged (the name label or
  the url label is missing, or a bound of the port range is missing or unparsable), List
  returns an error, which in Go comes with a nil list; otherwise List returns one entry
  for each workload, in order, each the entry of its workload.
\<close>

theorem List_all_or_nothing:
  assumes "listContainers manager s = Inr containers"
  shows "if list_ex (\<lambda>c. damaged (portType manager) (Container.Labels c)) containers
         then \<exists>err. List manager s = Inl err
         else \<exists>entries. List manager s = Inr entries
                \<and> length entries = length containers
                \<and> list_all2 (entryOf (portType manager)) containers entries"
proof (cases "list_ex (\<lambda>c. damaged (portType manager) (Container.Labels c)) containers")
  case True
  with assms List_loop_damaged [OF True, of "[]"] show ?thesis
    by (simp add: List_def)
next
  case False
  from List_loop_total [OF False, of "[]"] obtain es where es: "List_loop (portType manager) containers [] = Inr es"
    by blast
  from List_loop_Inr [OF es] have all: "list_all2 (entryOf (portType manager)) containers es" by simp
  then have "length es = length containers" by (simp add: list_all2_lengthD)
  with assms False es all show ?thesis
    by (simp add: List_def)
qed

theorem List_all_or_nothing_witness:
  "listContainers (memManager exampleRoom False) exampleInventory =
     Inr [summary (workload ''neko-room-lobby''
        (Create_labels exampleRoom ''lobby'' \<lparr>Min_epr = 59000, Max_epr = 59004\<rparr>))]
   \<and> List (memManager exampleRoom False) exampleInventory = Inr [lobbyEntry]
   \<and> List (memManager exampleRoom False)
        (exampleInventory @ [workload ''neko-room-bad''
           [''m1k1o.neko_rooms.canary'' \<mapsto> labelCanary,
            ''m1k1o.neko_rooms.name'' \<mapsto> ''bad'',
            ''m1k1o.neko_rooms.url'' \<mapsto> ''http://example.org/bad/'',
            ''m1k1o.neko_rooms.epr.min'' \<mapsto> ''59007'',
            ''m1k1o.neko_rooms.epr.max'' \<mapsto> ''5900x'']])
       = Inl CorruptMetadataError"
proof -
  let ?bad = "workload ''neko-room-bad''
           [''m1k1o.neko_rooms.canary'' \<mapsto> labelCanary,
            ''m1k1o.neko_rooms.name'' \<mapsto> ''bad'',
            ''m1k1o.neko_rooms.url'' \<mapsto> ''http://example.org/bad/'',
            ''m1k1o.neko_rooms.epr.min'' \<mapsto> ''59007'',
            ''m1k1o.neko_rooms.epr.max'' \<mapsto> ''5900x'']"
  let ?lobby = "summary (workload ''neko-room-lobby''
        (Create_labels exampleRoom ''lobby'' \<lparr>Min_epr = 59000, Max_epr = 59004\<rparr>))"
  have a: "listContainers (memManager exampleRoom False) exampleInventory = Inr [?lobby]"
    by (rule listContainers_example)
  have b: "listContainers (memManager exampleRoom False) (exampleInventory @ [?bad]) =
      Inr [?lobby, summary ?bad]"
    by (simp add: listContainers_def memManager_def memClient_def exampleInventory_def
        summary_def workload_def hasCanary_Create_labels hasCanary_db)
      (simp add: hasCanary_def)
  have pt: "portType (memManager exampleRoom False) = Uint16"
    by (simp add: memManager_def)
  have nd: "\<not> damaged Uint16 (Container.Labels ?lobby)"
    by (simp add: damaged_def summary_def workload_def Create_labels_name Create_labels_url
        Create_labels_epr_min Create_labels_epr_max parseDecimal_fmt_d maxInt_Uint16)
  have d: "damaged Uint16 (Container.Labels (summary ?bad))"
    by (simp add: damaged_def summary_def workload_def parseDecimal_def digitVal_def)
  from List_all_or_nothing [OF a] nd pt
  have "\<exists>entries. List (memManager exampleRoom False) exampleInventory = Inr entries"
    by auto
  moreover from List_all_or_nothing [OF b] d pt
  have "\<exists>err. List (memManager exampleRoom False) (exampleInventory @ [?bad]) = Inl err"
    by auto
  moreover have "getEprFromLabels Uint16 (Container.Labels (summary ?bad)) =
      Inl CorruptMetadataError"
    by (simp add: summary_def workload_def getEprFromLabels_def parseDecimal_def digitVal_def
        maxInt_Uint16)
  then have "List (memManager exampleRoom False) (exampleInventory @ [?bad]) =
      Inl CorruptMetadataError"
    by (simp add: List_def b pt)
      (simp add: summary_def workload_def Create_labels_name Create_labels_url
        getEprFromLabels_Create_labels maxInt_Uint16)
  ultimately show ?thesis
    using a List_example by simp
qed

text \<open>
  C3. List returns no entry for a workload without the canary marker. For every
  inventory of the engine, the entries of a successful List stand, one for one and in
  order, for the workloads of the inventory whose labels hold the canary key with the
  constant marker value; a workload without it has no entry, whatever its other labels
  are.
\<close>

theorem List_only_canary:
  assumes "ContainerList (client manager) s = Inr inventory"
    and "List manager s = Inr entries"
  shows "list_all2
           (\<lambda>c e. RoomEntry.ID e = Container.ID c \<and> c \<in> set inventory
                  \<and> Container.Labels c ''m1k1o.neko_rooms.canary'' = Some labelCanary)
           (filter (\<lambda>c. hasCanary (Container.Labels c)) inventory) entries"
proof -
  define rooms where "rooms = filter (\<lambda>c. hasCanary (Container.Labels c)) inventory"
  have lc: "listContainers manager s = Inr rooms"
    using assms(1) by (simp add: listContainers_def rooms_def)
  with assms(2) have "List_loop (portType manager) rooms [] = Inr entries"
    by (simp add: List_def)
  from List_loop_Inr [OF this] have "list_all2 (entryOf (portType manager)) rooms entries" by simp
  then have "list_all2 (\<lambda>c e. RoomEntry.ID e = Container.ID c) rooms entries"
    by (rule list_all2_mono) (auto simp: entryOf_def split: sum.splits)
  moreover have "\<forall>c\<in>set rooms. c \<in> set inventory
      \<and> Container.Labels c ''m1k1o.neko_rooms.canary'' = Some labelCanary"
    by (auto simp: rooms_def hasCanary_def)
  ultimately have "list_all2
           (\<lambda>c e. RoomEntry.ID e = Container.ID c \<and> c \<in> set inventory
                  \<and> Container.Labels c ''m1k1o.neko_rooms.canary'' = Some labelCanary)
           rooms entries"
    by (auto simp: list_all2_conv_all_nth)
  then show ?thesis by (simp add: rooms_def)
qed

theorem List_only_canary_witness:
  "ContainerList (client (memManager exampleRoom False)) exampleInventory =
     Inr (map summary exampleInventory)
   \<and> map Container.ID (map summary exampleInventory) = [''db'', ''neko-room-lobby'']
   \<and> List (memManager exampleRoom False) exampleInventory = Inr [lobbyEntry]
   \<and> RoomEntry.ID lobbyEntry = ''neko-room-lobby''"
proof -
  have a: "ContainerList (client (memManager exampleRoom False)) exampleInventory =
     Inr (map summary exampleInventory)"
    by (simp add: memManager_def memClient_def)
  have b: "List (memManager exampleRoom False) exampleInventory = Inr [lobbyEntry]"
    by (rule List_example)
  have c: "map Container.ID (map summary exampleInventory) = [''db'', ''neko-room-lobby'']"
    by (simp add: exampleInventory_def summary_def workload_def)
  from List_only_canary [OF a b] have "length (filter (\<lambda>c. hasCanary (Container.Labels c))
      (map summary exampleInventory)) = length [lobbyEntry]"
    by (rule list_all2_lengthD)
  then show ?thesis using a b c by (simp add: lobbyEntry_def)
qed











section \<open>Remove, Start, Stop and Restart\<close>

text \<open>
  C8. Remove, Start, Stop and Restart inspect the target first. When the engine knows
  the identifier and the workload is canary-marked, Start, Stop and Restart are the
  engine's primitive on that identifier, and Remove is the engine's stop followed, when
  the stop succeeds, by the forced removal with the volumes. When the workload exists
  but is not canary-marked, each of the four returns an error and the engine's state is
  the one it was called in, for every engine: no primitive that changes the state has
  been called.
\<close>

theorem lifecycle_checks_canary:
  assumes "ContainerInspect (client manager) ident s = Inr container"
  shows "if hasCanary (ContainerConfig.Labels (ContainerJSON.Config container))
         then Start manager ident s = ContainerStart (client manager) ident s
            \<and> Stop manager ident s = ContainerStop (client manager) ident s
            \<and> Restart manager ident s = ContainerRestart (client manager) ident s
            \<and> Remove manager ident s =
                (case ContainerStop (client manager) ident s of
                   (Some err, s1) \<Rightarrow> (Some err, s1)
                 | (None, s1) \<Rightarrow>
                     ContainerRemove (client manager) ident
                       \<lparr>RemoveVolumes = True, Force = True\<rparr> s1)
         else Remove manager ident s = (Some NotFoundError, s)
            \<and> Start manager ident s = (Some NotFoundError, s)
            \<and> Stop manager ident s = (Some NotFoundError, s)
            \<and> Restart manager ident s = (Some NotFoundError, s)"
  using assms
  by (simp add: Remove_def Start_def Stop_def Restart_def inspectContainer_def)

lemma inspect_db:
  "ContainerInspect (client (memManager exampleRoom b)) ''db'' exampleInventory =
     Inr \<lparr>ContainerJSON.ID = ''db'', Config = w_Config (hd exampleInventory)\<rparr>"
  by (simp add: memManager_def memClient_def exampleInventory_def workload_def)

lemma inspect_lobby:
  "ContainerInspect (client (memManager exampleRoom b)) ''neko-room-lobby'' exampleInventory =
     Inr \<lparr>ContainerJSON.ID = ''neko-room-lobby'', Config = w_Config (exampleInventory ! 1)\<rparr>"
  by (simp add: memManager_def memClient_def exampleInventory_def workload_def)

lemma canary_db: "\<not> hasCanary (ContainerConfig.Labels (w_Config (hd exampleInventory)))"
  by (simp add: exampleInventory_def workload_def hasCanary_db)

lemma canary_lobby: "hasCanary (ContainerConfig.Labels (w_Config (exampleInventory ! 1)))"
  by (simp add: exampleInventory_def workload_def hasCanary_Create_labels)

theorem lifecycle_checks_canary_witness:
  "Remove (memManager exampleRoom False) ''db'' exampleInventory =
     (Some NotFoundError, exampleInventory)
   \<and> Start (memManager exampleRoom False) ''db'' exampleInventory =
     (Some NotFoundError, exampleInventory)
   \<and> Stop (memManager exampleRoom False) ''db'' exampleInventory =
     (Some NotFoundError, exampleInventory)
   \<and> Restart (memManager exampleRoom False) ''db'' exampleInventory =
     (Some NotFoundError, exampleInventory)
   \<and> fst (Remove (memManager exampleRoom False) ''neko-room-lobby'' exampleInventory) = None
   \<and> map w_ID (snd (Remove (memManager exampleRoom False) ''neko-room-lobby'' exampleInventory))
       = [''db'']
   \<and> map w_Running (snd (Start (memManager exampleRoom False) ''neko-room-lobby'' exampleInventory))
       = [False, True]"
proof -
  note db = lifecycle_checks_canary [OF inspect_db, of False]
  note lobby = lifecycle_checks_canary [OF inspect_lobby, of False]
  have a: "Remove (memManager exampleRoom False) ''db'' exampleInventory =
       (Some NotFoundError, exampleInventory)
     \<and> Start (memManager exampleRoom False) ''db'' exampleInventory =
       (Some NotFoundError, exampleInventory)
     \<and> Stop (memManager exampleRoom False) ''db'' exampleInventory =
       (Some NotFoundError, exampleInventory)
     \<and> Restart (memManager exampleRoom False) ''db'' exampleInventory =
       (Some NotFoundError, exampleInventory)"
    using db canary_db by simp
  have b: "Remove (memManager exampleRoom False) ''neko-room-lobby'' exampleInventory =
      (None, filter (\<lambda>w. w_ID w \<noteq> ''neko-room-lobby'')
               (setRunning ''neko-room-lobby'' False exampleInventory))"
    using lobby canary_lobby by (simp add: memManager_def memClient_def)
  have c: "Start (memManager exampleRoom False) ''neko-room-lobby'' exampleInventory =
      (None, setRunning ''neko-room-lobby'' True exampleInventory)"
    using lobby canary_lobby by (simp add: memManager_def memClient_def)
  show ?thesis
    using a by (simp add: b c) (simp add: setRunning_def exampleInventory_def workload_def)
qed

section \<open>Create when the start fails\<close>

text \<open>
  C10. When the name is resolved, the ports are allocated, the loop over the ports has
  returned, the engine's create succeeds and the engine's start of the new workload
  fails, Create returns the error of the start, and the engine is left in the state the
  failed start left it in: Create calls nothing after it, so nothing removes the workload
  the create call made. In the worked example the workload is still listed after the
  failed Create and still holds the range 59000 to 59004, and the next allocation gets
  59005 to 59009.
\<close>

theorem Create_start_failure_keeps_workload:
  assumes "Create_roomName manager settings s = (Inr roomName, s1)"
    and "allocatePorts manager (RoomSettings.MaxConnections settings) s1 = Inr epr"
    and "Create_ports (portType manager) (Min_epr epr) (Max_epr epr)
           (Map.empty, {portKey frontendPort}) = Some (portBindings, exposedPorts)"
    and "ContainerCreate (client manager)
           (Create_config manager settings roomName epr exposedPorts)
           (Create_hostConfig portBindings)
           (Create_networkingConfig (config manager))
           (containerPrefix @ roomName) s1 = (Inr contID, s2)"
    and "ContainerStart (client manager) contID s2 = (Some err, s3)"
  shows "Create manager settings s = Some (Inl err, s3)
       \<and> (\<forall>r. Create manager settings s = Some r \<longrightarrow>
             ContainerList (client manager) (snd r) = ContainerList (client manager) s3)"
  using assms by (simp add: Create_def)

lemma Labels_Create_config:
  "ContainerConfig.Labels (Create_config manager settings roomName epr exposedPorts) =
     Create_labels (config manager) roomName epr"
  by (simp add: Create_config_def)

lemma allocatePorts_empty:
  "allocatePorts (memManager exampleRoom b) 5 [] = Inr \<lparr>Min_epr = 59000, Max_epr = 59004\<rparr>"
  by (simp add: allocatePorts_def listContainers_def memManager_def memClient_def
      exampleRoom_def allocate_def takeGap_def)

theorem Create_start_failure_keeps_workload_witness:
  "map_option fst (Create (memManager exampleRoom True)
         \<lparr>RoomSettings.Name = ''lobby'', RoomSettings.MaxConnections = 5, Options = ()\<rparr> []) =
     Some (Inl (External ''driver failed programming external connectivity''))
   \<and> map_option (map w_ID \<circ> snd) (Create (memManager exampleRoom True)
         \<lparr>RoomSettings.Name = ''lobby'', RoomSettings.MaxConnections = 5, Options = ()\<rparr> []) =
     Some [''neko-room-lobby'']
   \<and> allocatePorts (memManager exampleRoom True) 5 [] = Inr \<lparr>Min_epr = 59000, Max_epr = 59004\<rparr>
   \<and> map_option (allocatePorts (memManager exampleRoom True) 5 \<circ> snd)
       (Create (memManager exampleRoom True)
         \<lparr>RoomSettings.Name = ''lobby'', RoomSettings.MaxConnections = 5, Options = ()\<rparr> []) =
     Some (Inr \<lparr>Min_epr = 59005, Max_epr = 59009\<rparr>)"
proof -
  let ?M = "memManager exampleRoom True"
  let ?S = "\<lparr>RoomSettings.Name = ''lobby'', RoomSettings.MaxConnections = 5, Options = ()\<rparr>"
  let ?E = "\<lparr>Min_epr = 59000, Max_epr = 59004\<rparr>"
  let ?R = "foldl Create_publish (Map.empty, {portKey frontendPort}) [59000..59004]"
  let ?W = "\<lparr>w_ID = ''neko-room-lobby'', w_Config = Create_config ?M ?S ''lobby'' ?E (snd ?R),
      w_Running = False\<rparr>"
  have pt: "portType ?M = Uint16"
    by (simp add: memManager_def)
  have n: "Create_roomName ?M ?S [] = (Inr ''lobby'', [])"
    by (simp add: Create_roomName_def)
  have a: "allocatePorts ?M (RoomSettings.MaxConnections ?S) [] = Inr ?E"
    using allocatePorts_empty [of True] by simp
  have p: "Create_ports (portType ?M) (Min_epr ?E) (Max_epr ?E)
      (Map.empty, {portKey frontendPort}) = Some (fst ?R, snd ?R)"
    using Create_ports_returns [of Uint16 59000 59004 "(Map.empty, {portKey frontendPort})"]
    by (simp add: pt minInt_Uint16 maxInt_Uint16)
  have c: "ContainerCreate (client ?M) (Create_config ?M ?S ''lobby'' ?E (snd ?R))
      (Create_hostConfig (fst ?R))
      (Create_networkingConfig (config ?M)) (containerPrefix @ ''lobby'') [] =
      (Inr ''neko-room-lobby'', [?W])"
    by (simp add: memManager_def memClient_def containerPrefix_def)
  have st: "ContainerStart (client ?M) ''neko-room-lobby'' [?W] =
      (Some (External ''driver failed programming external connectivity''), [?W])"
    by (simp add: memManager_def memClient_def)
  have r: "Create ?M ?S [] =
      Some (Inl (External ''driver failed programming external connectivity''), [?W])"
    by (rule Create_start_failure_keeps_workload [OF n a p c st, THEN conjunct1])
  have cfg: "config ?M = exampleRoom"
    by (simp add: memManager_def)
  have l: "listContainers ?M [?W] = Inr [summary ?W]"
    by (simp add: listContainers_def memManager_def memClient_def summary_def
        Labels_Create_config hasCanary_Create_labels)
  have u: "getUsedPorts Uint16 [summary ?W] = Inr [?E]"
    by (simp add: summary_def Labels_Create_config getEprFromLabels_Create_labels
        maxInt_Uint16)
  have again: "allocatePorts ?M 5 [?W] = Inr \<lparr>Min_epr = 59005, Max_epr = 59009\<rparr>"
    unfolding allocatePorts_def l sum.case pt u cfg
    by (simp add: exampleRoom_def allocate_def takeGap_def)
  show ?thesis
    using a again by (simp add: r)
qed

end
